theory Spec2Isabelle
  imports Main "HOL-Library.List_Lexorder" "HOL-Library.Word"
begin

section \<open>Data model\<close>

text \<open>
  The offline/online synchronisation engine of the expense tracker consists of the
  storage utilities (\<^verbatim>\<open>getItem\<close>, \<^verbatim>\<open>setItem\<close>, \<^verbatim>\<open>addToQueue\<close>, \<^verbatim>\<open>getQueue\<close>,
  \<^verbatim>\<open>clearQueue\<close>), the transaction store (\<^verbatim>\<open>TransactionProvider\<close>) and the
  category/payment-method store (\<^verbatim>\<open>DataProvider\<close>).

  A JavaScript string is a sequence of 16-bit code units. The names of properties, tables
  and columns and the \<^verbatim>\<open>type\<close> and \<^verbatim>\<open>entity\<close> tags of queued actions are literals of
  the program text and are kept as \<^typ>\<open>string\<close>; every other string value (what the user
  types, what the remote store returns, identifiers, messages) is a list of code units.
  \<open>utf16\<close> gives the code units of a literal of one-byte characters.
\<close>

type_synonym jstring = "16 word list"

definition utf16 :: "string \<Rightarrow> jstring" where
  "utf16 s = map (\<lambda>c. of_nat (of_char c)) s"

text \<open>
  Entities are JavaScript objects. An object is an association list from property names
  to values, in insertion order; a property that is absent reads as \<^verbatim>\<open>undefined\<close>,
  which is \<open>None\<close> here. Numbers are only copied and compared by the code modelled
  below, never computed with, so they are integers.
\<close>

datatype jval = JNull | JBool bool | JNum int | JStr jstring

type_synonym row = "(string \<times> jval) list"

text \<open>\<^verbatim>\<open>o[k]\<close>: reading a property.\<close>

definition get_prop :: "row \<Rightarrow> string \<Rightarrow> jval option" where
  "get_prop r k = map_of r k"

text \<open>\<^verbatim>\<open>{ ...o, [k]: v }\<close>: an existing property keeps its place, a new one goes last.\<close>

fun set_prop :: "string \<Rightarrow> jval \<Rightarrow> row \<Rightarrow> row" where
  "set_prop k v [] = [(k, v)]"
| "set_prop k v (p # r) = (if fst p = k then (k, v) # r else p # set_prop k v r)"

text \<open>\<^verbatim>\<open>{ ...t, ...u }\<close>: the properties of \<open>u\<close> are assigned onto \<open>t\<close> one by one.\<close>

definition spread :: "row \<Rightarrow> row \<Rightarrow> row" where
  "spread t u = foldl (\<lambda>acc p. set_prop (fst p) (snd p) acc) t u"

text \<open>\<^verbatim>\<open>const { id, ...insertData } = o\<close>: the object without one property.\<close>

definition omit :: "string \<Rightarrow> row \<Rightarrow> row" where
  "omit k r = filter (\<lambda>p. fst p \<noteq> k) r"

text \<open>
  A queued action is an untyped object; the code reads the properties \<^verbatim>\<open>entity\<close>,
  \<^verbatim>\<open>type\<close>, \<^verbatim>\<open>id\<close>, \<^verbatim>\<open>data\<close>, \<^verbatim>\<open>field\<close>, \<^verbatim>\<open>oldValue\<close> and \<^verbatim>\<open>newValue\<close>
  of it. Each is optional except \<^verbatim>\<open>type\<close>, which every action of the program carries.
\<close>

record action =
  a_entity :: "string option"
  a_type :: string
  a_id :: "jval option"
  a_data :: "row option"
  a_field :: "string option"
  a_oldValue :: "jstring option"
  a_newValue :: "jstring option"

definition mk_action :: "string \<Rightarrow> action" where
  "mk_action ty = \<lparr>a_entity = None, a_type = ty, a_id = None, a_data = None,
     a_field = None, a_oldValue = None, a_newValue = None\<rparr>"

subsection \<open>The remote store\<close>

text \<open>
  A call through the Supabase client, as the code builds it: the table, the payload and the
  \<^verbatim>\<open>eq\<close> filters. Arguments that the drain takes from an action may be \<^verbatim>\<open>undefined\<close>.
\<close>

datatype call =
    Insert string row
  | Update string "row option" "(string \<times> jval option) list"
  | Delete string "(string \<times> jval option) list"
  | Select string string bool

text \<open>
  A thrown or returned error value. \<^verbatim>\<open>error instanceof Error ? error.message : fallback\<close>
  tells the two kinds apart.
\<close>

datatype exn = ErrorObj jstring | NonError jstring

definition message_or :: "exn \<Rightarrow> jstring \<Rightarrow> jstring" where
  "message_or e fallback = (case e of ErrorObj m \<Rightarrow> m | NonError _ \<Rightarrow> fallback)"

text \<open>
  An awaited call either throws, or returns \<^verbatim>\<open>{ data: null, error }\<close> (the remote refused
  it), or returns \<^verbatim>\<open>{ data, error: null }\<close>.
\<close>

datatype 'a reply = Threw exn | Failure exn | Success 'a

text \<open>
  The remote store is outside the program: it is a parameter. Its answer may depend on the
  call and on all calls made before. \<^verbatim>\<open>.select().single()\<close> yields one row, a plain
  \<^verbatim>\<open>select\<close> a list of rows, an \<^verbatim>\<open>update\<close> or \<^verbatim>\<open>delete\<close> without \<^verbatim>\<open>select\<close> no data.
\<close>

record remote =
  single_reply :: "call list \<Rightarrow> call \<Rightarrow> row reply"
  rows_reply :: "call list \<Rightarrow> call \<Rightarrow> row list reply"
  void_reply :: "call list \<Rightarrow> call \<Rightarrow> unit reply"

subsection \<open>The application state\<close>

text \<open>
  The persisted store (one \<^verbatim>\<open>localforage\<close> instance, keys \<^verbatim>\<open>transactions\<close>,
  \<^verbatim>\<open>categories\<close>, \<^verbatim>\<open>payment_methods\<close> and \<^verbatim>\<open>sync-queue\<close>; \<open>None\<close> is a key never
  written), the React state of the two providers, and the log of the remote calls issued
  so far, oldest first. Both providers read and write the same persisted store.
  The persistence calls themselves are taken not to fail.

  An asynchronous function suspends at every \<^verbatim>\<open>await\<close>, and another call can run while
  it is suspended. The functions below give a call that runs from its start to its end
  with no other call in between. For the drain of the transaction store, which one
  reconnection starts twice, the steps between which it can be suspended are given as
  well (\<open>drain_begin\<close>, \<open>drain_turn\<close>, \<open>drain_end\<close>).
\<close>

record app =
  st_transactions :: "row list option"
  st_categories :: "row list option"
  st_payment_methods :: "row list option"
  st_queue :: "action list option"
  calls :: "call list"
  transactions :: "row list"
  t_isLoading :: bool
  t_isConnected :: bool
  t_isOffline :: bool
  t_isSyncing :: bool
  t_error :: "jstring option"
  expenseCategories :: "jval option list"
  incomeCategories :: "jval option list"
  paymentMethods :: "jval option list"
  d_isLoading :: bool
  d_isOffline :: bool
  d_isSyncing :: bool
  d_error :: "jstring option"

text \<open>\<^verbatim>\<open>(await getItem(key)) || []\<close>\<close>

definition or_empty :: "'a list option \<Rightarrow> 'a list" where
  "or_empty v = (case v of None \<Rightarrow> [] | Some xs \<Rightarrow> xs)"

definition getQueue :: "app \<Rightarrow> action list" where
  "getQueue s = or_empty (st_queue s)"

definition addToQueue :: "action \<Rightarrow> app \<Rightarrow> app" where
  "addToQueue a s = s\<lparr>st_queue := Some (getQueue s @ [a])\<rparr>"

definition clearQueue :: "app \<Rightarrow> app" where
  "clearQueue s = s\<lparr>st_queue := Some []\<rparr>"

definition issue :: "call \<Rightarrow> app \<Rightarrow> app" where
  "issue c s = s\<lparr>calls := calls s @ [c]\<rparr>"

text \<open>\<^verbatim>\<open>`offline-${Date.now()}`\<close>: the decimal digits of the clock reading.\<close>

fun string_of_nat :: "nat \<Rightarrow> string" where
  "string_of_nat n =
     (if n < 10 then [char_of (48 + n)]
      else string_of_nat (n div 10) @ [char_of (48 + n mod 10)])"

declare string_of_nat.simps [simp del]

section \<open>The transaction store\<close>

definition refreshTransactions :: "remote \<Rightarrow> bool \<Rightarrow> app \<Rightarrow> app" where
  "refreshTransactions R online s0 =
     (let s = s0\<lparr>t_isLoading := True, t_error := None\<rparr>;
          s' =
            (if \<not> online then
               s\<lparr>transactions := or_empty (st_transactions s),
                 t_isConnected := False, t_isOffline := True\<rparr>
             else
               (let c = Select ''transactions'' ''date'' False; s1 = issue c s in
                case rows_reply R (calls s) c of
                  Success d \<Rightarrow>
                    s1\<lparr>transactions := d, st_transactions := Some d,
                       t_isConnected := True, t_isOffline := False\<rparr>
                | Failure e \<Rightarrow>
                    s1\<lparr>t_error := Some (message_or e (utf16 ''Failed to load transactions'')),
                       t_isConnected := False, t_isOffline := True\<rparr>
                | Threw e \<Rightarrow>
                    s1\<lparr>t_error := Some (message_or e (utf16 ''Failed to load transactions'')),
                       t_isConnected := False, t_isOffline := True\<rparr>))
      in s'\<lparr>t_isLoading := False\<rparr>)"

text \<open>
  One turn of the loop of \<^verbatim>\<open>syncQueue\<close>, on the local variable \<^verbatim>\<open>localTx\<close> and the
  state. The first component is the exception that left the loop, if any.
  Destructuring \<^verbatim>\<open>action.data\<close> throws a \<^verbatim>\<open>TypeError\<close> when it is absent.
\<close>

definition sync_step :: "remote \<Rightarrow> action \<Rightarrow> row list \<times> app \<Rightarrow> exn option \<times> row list \<times> app" where
  "sync_step R a ls =
     (let localTx = fst ls; s = snd ls in
      if a_type a = ''add'' then
        (case a_data a of
           None \<Rightarrow> (Some (ErrorObj (utf16 ''TypeError'')), localTx, s)
         | Some d \<Rightarrow>
             (let c = Insert ''transactions'' (omit ''id'' d); s1 = issue c s in
              case single_reply R (calls s) c of
                Threw e \<Rightarrow> (Some e, localTx, s1)
              | Failure e \<Rightarrow> (None, localTx, s1)
              | Success r \<Rightarrow>
                  (let localTx' = r # filter (\<lambda>t. get_prop t ''id'' \<noteq> get_prop d ''id'') localTx
                   in (None, localTx',
                       s1\<lparr>transactions := localTx', st_transactions := Some localTx'\<rparr>))))
      else if a_type a = ''update'' then
        (let c = Update ''transactions'' (a_data a) [(''id'', a_id a)]; s1 = issue c s in
         case void_reply R (calls s) c of
           Threw e \<Rightarrow> (Some e, localTx, s1)
         | _ \<Rightarrow> (None, localTx, s1))
      else if a_type a = ''delete'' then
        (let c = Delete ''transactions'' [(''id'', a_id a)]; s1 = issue c s in
         case void_reply R (calls s) c of
           Threw e \<Rightarrow> (Some e, localTx, s1)
         | _ \<Rightarrow> (None, localTx, s1))
      else (None, localTx, s))"

text \<open>\<^verbatim>\<open>for (const action of queue)\<close>: an exception ends the loop.\<close>

fun sync_loop :: "remote \<Rightarrow> action list \<Rightarrow> row list \<times> app \<Rightarrow> exn option \<times> row list \<times> app" where
  "sync_loop R [] ls = (None, ls)"
| "sync_loop R (a # as) ls =
     (case sync_step R a ls of
        (Some e, ls') \<Rightarrow> (Some e, ls')
      | (None, ls') \<Rightarrow> sync_loop R as ls')"

text \<open>
  \<^verbatim>\<open>syncQueue\<close> up to and including \<^verbatim>\<open>clearQueue()\<close>: the drain proper. The result says
  whether the \<^verbatim>\<open>try\<close> block is still running (no exception so far).
\<close>

definition drainQueue :: "remote \<Rightarrow> app \<Rightarrow> bool \<times> row list \<times> app" where
  "drainQueue R s0 =
     (let s = s0\<lparr>t_isSyncing := True\<rparr>;
          localTx = or_empty (st_transactions s);
          queue = getQueue s
      in case sync_loop R queue (localTx, s) of
           (Some e, localTx', s') \<Rightarrow> (False, localTx', s')
         | (None, localTx', s') \<Rightarrow> (True, localTx', clearQueue s'))"

text \<open>
  The whole of \<^verbatim>\<open>syncQueue\<close>. \<^verbatim>\<open>navigator.onLine\<close> is read again by the refresh that
  follows a completed drain, so it is an argument.
\<close>

definition syncQueue :: "remote \<Rightarrow> bool \<Rightarrow> app \<Rightarrow> app" where
  "syncQueue R online s0 =
     (case drainQueue R s0 of
        (True, _, s') \<Rightarrow> (refreshTransactions R online s')\<lparr>t_isSyncing := False\<rparr>
      | (False, _, s') \<Rightarrow> s'\<lparr>t_isSyncing := False\<rparr>)"

text \<open>
  The same call in steps. \<open>drain_begin\<close> runs the call up to the loop: it sets the flag
  and reads the persisted collection and the queue into the local variables of the call.
  \<open>drain_turn\<close> is one turn of the loop, for the first action not yet processed.
  \<open>drain_end\<close> is what follows the loop: \<^verbatim>\<open>clearQueue()\<close> and the refresh when no
  exception left the loop, and the \<^verbatim>\<open>finally\<close> block. Real suspension points are finer
  (inside a turn, inside the refresh); a run in which every call makes its steps in this
  order, with steps of another call in between, is a run that the program can make.
\<close>

record drain_call =
  dc_localTx :: "row list"
  dc_queue :: "action list"

definition drain_begin :: "app \<Rightarrow> drain_call \<times> app" where
  "drain_begin s0 =
     (let s = s0\<lparr>t_isSyncing := True\<rparr>
      in (\<lparr>dc_localTx = or_empty (st_transactions s), dc_queue = getQueue s\<rparr>, s))"

definition drain_turn :: "remote \<Rightarrow> drain_call \<times> app \<Rightarrow> exn option \<times> drain_call \<times> app" where
  "drain_turn R cs =
     (case dc_queue (fst cs) of
        [] \<Rightarrow> (None, cs)
      | a # as \<Rightarrow>
          (case sync_step R a (dc_localTx (fst cs), snd cs) of
             (e, localTx', s') \<Rightarrow> (e, \<lparr>dc_localTx = localTx', dc_queue = as\<rparr>, s')))"

fun drain_turns :: "remote \<Rightarrow> nat \<Rightarrow> drain_call \<times> app \<Rightarrow> exn option \<times> drain_call \<times> app" where
  "drain_turns R 0 cs = (None, cs)"
| "drain_turns R (Suc n) cs =
     (case drain_turn R cs of
        (Some e, cs') \<Rightarrow> (Some e, cs')
      | (None, cs') \<Rightarrow> drain_turns R n cs')"

definition drain_end :: "remote \<Rightarrow> bool \<Rightarrow> exn option \<Rightarrow> app \<Rightarrow> app" where
  "drain_end R online e s =
     (case e of
        None \<Rightarrow> (refreshTransactions R online (clearQueue s))\<lparr>t_isSyncing := False\<rparr>
      | Some _ \<Rightarrow> s\<lparr>t_isSyncing := False\<rparr>)"

text \<open>
  The four writes. Each returns the state and, when the promise is rejected, the error it is
  rejected with (\<^verbatim>\<open>throw error\<close> in the \<^verbatim>\<open>catch\<close> block); \<^verbatim>\<open>updateTransaction\<close>
  resolves to a row, or to \<^verbatim>\<open>undefined\<close> when \<^verbatim>\<open>find\<close> finds none.
  \<open>now\<close> is the reading of \<^verbatim>\<open>Date.now()\<close>.
\<close>

definition t_caught :: "jstring \<Rightarrow> exn \<Rightarrow> app \<Rightarrow> app" where
  "t_caught fallback e s = s\<lparr>t_error := Some (message_or e fallback), t_isLoading := False\<rparr>"

definition addTransaction :: "remote \<Rightarrow> bool \<Rightarrow> nat \<Rightarrow> row \<Rightarrow> app \<Rightarrow> app \<times> exn option" where
  "addTransaction R online now transactionData s0 =
     (let s = s0\<lparr>t_isLoading := True, t_error := None\<rparr> in
      if \<not> online then
        (let localTx = or_empty (st_transactions s);
             tempId = utf16 (''offline-'' @ string_of_nat now);
             newTx = set_prop ''id'' (JStr tempId) transactionData;
             s1 = s\<lparr>st_transactions := Some (newTx # localTx)\<rparr>;
             s2 = addToQueue ((mk_action ''add'')\<lparr>a_data := Some newTx\<rparr>) s1;
             s3 = s2\<lparr>transactions := newTx # localTx\<rparr>
         in (s3\<lparr>t_isLoading := False\<rparr>, None))
      else
        (let c = Insert ''transactions'' transactionData; s1 = issue c s in
         case single_reply R (calls s) c of
           Threw e \<Rightarrow> (t_caught (utf16 ''Failed to add transaction'') e s1, Some e)
         | Failure e \<Rightarrow> (t_caught (utf16 ''Failed to add transaction'') e s1, Some e)
         | Success d \<Rightarrow>
             (let s2 = s1\<lparr>transactions := d # transactions s1\<rparr>;
                  localTx = or_empty (st_transactions s2);
                  s3 = s2\<lparr>st_transactions := Some (d # localTx)\<rparr>
              in (s3\<lparr>t_isLoading := False\<rparr>, None))))"

definition removeTransaction :: "remote \<Rightarrow> bool \<Rightarrow> jstring \<Rightarrow> app \<Rightarrow> app \<times> exn option" where
  "removeTransaction R online ident s0 =
     (let s = s0\<lparr>t_isLoading := True, t_error := None\<rparr>;
          keep = (\<lambda>t. get_prop t ''id'' \<noteq> Some (JStr ident)) in
      if \<not> online then
        (let localTx = or_empty (st_transactions s);
             s1 = s\<lparr>st_transactions := Some (filter keep localTx)\<rparr>;
             s2 = addToQueue ((mk_action ''delete'')\<lparr>a_id := Some (JStr ident)\<rparr>) s1;
             s3 = s2\<lparr>transactions := filter keep localTx\<rparr>
         in (s3\<lparr>t_isLoading := False\<rparr>, None))
      else
        (let c = Delete ''transactions'' [(''id'', Some (JStr ident))]; s1 = issue c s in
         case void_reply R (calls s) c of
           Threw e \<Rightarrow> (t_caught (utf16 ''Failed to remove transaction'') e s1, Some e)
         | Failure e \<Rightarrow> (t_caught (utf16 ''Failed to remove transaction'') e s1, Some e)
         | Success _ \<Rightarrow>
             (let localTx = or_empty (st_transactions s1);
                  s2 = s1\<lparr>st_transactions := Some (filter keep localTx)\<rparr>;
                  s3 = s2\<lparr>transactions := filter keep (transactions s2)\<rparr>
              in (s3\<lparr>t_isLoading := False\<rparr>, None))))"

definition updateTransaction ::
    "remote \<Rightarrow> bool \<Rightarrow> jstring \<Rightarrow> row \<Rightarrow> app \<Rightarrow> app \<times> (exn + row option)" where
  "updateTransaction R online ident updates s0 =
     (let s = s0\<lparr>t_isLoading := True, t_error := None\<rparr>;
          patch = (\<lambda>t. if get_prop t ''id'' = Some (JStr ident) then spread t updates else t) in
      if \<not> online then
        (let localTx = or_empty (st_transactions s);
             updatedTx = map patch localTx;
             s1 = s\<lparr>st_transactions := Some updatedTx\<rparr>;
             s2 = addToQueue
                    ((mk_action ''update'')\<lparr>a_id := Some (JStr ident), a_data := Some updates\<rparr>) s1;
             s3 = s2\<lparr>transactions := updatedTx\<rparr>
         in (s3\<lparr>t_isLoading := False\<rparr>,
             Inr (find (\<lambda>t. get_prop t ''id'' = Some (JStr ident)) updatedTx)))
      else
        (let c = Update ''transactions'' (Some updates) [(''id'', Some (JStr ident))];
             s1 = issue c s in
         case single_reply R (calls s) c of
           Threw e \<Rightarrow> (t_caught (utf16 ''Failed to update transaction'') e s1, Inl e)
         | Failure e \<Rightarrow> (t_caught (utf16 ''Failed to update transaction'') e s1, Inl e)
         | Success d \<Rightarrow>
             (let localTx = or_empty (st_transactions s1);
                  updatedTx = map patch localTx;
                  s2 = s1\<lparr>st_transactions := Some updatedTx\<rparr>;
                  s3 = s2\<lparr>transactions := map patch (transactions s2)\<rparr>
              in (s3\<lparr>t_isLoading := False\<rparr>, Inr (Some d)))))"

definition bulkRenameInTransactions ::
    "remote \<Rightarrow> bool \<Rightarrow> string \<Rightarrow> jstring \<Rightarrow> jstring \<Rightarrow> app \<Rightarrow> app \<times> exn option" where
  "bulkRenameInTransactions R online field oldValue newValue s0 =
     (let s = s0\<lparr>t_isLoading := True, t_error := None\<rparr>;
          rename = (\<lambda>t. if get_prop t field = Some (JStr oldValue)
                         then set_prop field (JStr newValue) t else t) in
      if \<not> online then
        (let localTx = or_empty (st_transactions s);
             updatedTx = map rename localTx;
             s1 = s\<lparr>st_transactions := Some updatedTx\<rparr>;
             s2 = addToQueue
                    ((mk_action ''bulkRename'')\<lparr>a_field := Some field,
                       a_oldValue := Some oldValue, a_newValue := Some newValue\<rparr>) s1;
             s3 = s2\<lparr>transactions := updatedTx\<rparr>
         in (s3\<lparr>t_isLoading := False\<rparr>, None))
      else
        (let c = Update ''transactions'' (Some [(field, JStr newValue)])
                   [(field, Some (JStr oldValue))];
             s1 = issue c s in
         case void_reply R (calls s) c of
           Threw e \<Rightarrow> (t_caught (utf16 ''Failed to bulk rename'') e s1, Some e)
         | Failure e \<Rightarrow> (t_caught (utf16 ''Failed to bulk rename'') e s1, Some e)
         | Success _ \<Rightarrow>
             (let localTx = or_empty (st_transactions s1);
                  updatedTx = map rename localTx;
                  s2 = s1\<lparr>st_transactions := Some updatedTx\<rparr>;
                  s3 = s2\<lparr>transactions := updatedTx\<rparr>
              in (s3\<lparr>t_isLoading := False\<rparr>, None))))"

section \<open>The category and payment-method store\<close>

text \<open>
  The lists of names shown to the user hold whatever the \<^verbatim>\<open>name\<close> property of a row is,
  hence values that may be \<^verbatim>\<open>undefined\<close>.
\<close>

definition names_of_type :: "jstring \<Rightarrow> row list \<Rightarrow> jval option list" where
  "names_of_type ty rows =
     map (\<lambda>c. get_prop c ''name'') (filter (\<lambda>c. get_prop c ''type'' = Some (JStr ty)) rows)"

definition d_caught :: "exn \<Rightarrow> app \<Rightarrow> app" where
  "d_caught e s = s\<lparr>d_error := Some (message_or e (utf16 ''Failed to load data'')), d_isOffline := True\<rparr>"

definition refreshData :: "remote \<Rightarrow> bool \<Rightarrow> app \<Rightarrow> app" where
  "refreshData R online s0 =
     (let s = s0\<lparr>d_isLoading := True, d_error := None\<rparr>;
          s' =
            (if \<not> online then
               s\<lparr>expenseCategories := names_of_type (utf16 ''expense'') (or_empty (st_categories s)),
                 incomeCategories := names_of_type (utf16 ''income'') (or_empty (st_categories s)),
                 paymentMethods :=
                   map (\<lambda>p. get_prop p ''name'') (or_empty (st_payment_methods s)),
                 d_isOffline := True\<rparr>
             else
               (let c1 = Select ''categories'' ''order'' True; s1 = issue c1 s in
                case rows_reply R (calls s) c1 of
                  Threw e \<Rightarrow> d_caught e s1
                | Failure e \<Rightarrow> d_caught e s1
                | Success categoriesData \<Rightarrow>
                    (let c2 = Select ''payment_methods'' ''order'' True; s2 = issue c2 s1 in
                     case rows_reply R (calls s1) c2 of
                       Threw e \<Rightarrow> d_caught e s2
                     | Failure e \<Rightarrow> d_caught e s2
                     | Success paymentMethodsData \<Rightarrow>
                         s2\<lparr>expenseCategories := names_of_type (utf16 ''expense'') categoriesData,
                            incomeCategories := names_of_type (utf16 ''income'') categoriesData,
                            paymentMethods := map (\<lambda>p. get_prop p ''name'') paymentMethodsData,
                            st_categories := Some categoriesData,
                            st_payment_methods := Some paymentMethodsData,
                            d_isOffline := False\<rparr>)))
      in s'\<lparr>d_isLoading := False\<rparr>)"

text \<open>
  One turn of the loop of the store's own \<^verbatim>\<open>syncQueue\<close>, on the local variables
  \<^verbatim>\<open>localCategories\<close> and \<^verbatim>\<open>localPaymentMethods\<close> and the state.
\<close>

definition data_sync_step ::
    "remote \<Rightarrow> action \<Rightarrow> row list \<times> row list \<times> app \<Rightarrow> exn option \<times> row list \<times> row list \<times> app" where
  "data_sync_step R a ls =
     (let localCategories = fst ls; localPaymentMethods = fst (snd ls); s = snd (snd ls) in
      if a_entity a = Some ''category'' then
        (if a_type a = ''add'' then
           (case a_data a of
              None \<Rightarrow> (Some (ErrorObj (utf16 ''TypeError'')), localCategories, localPaymentMethods, s)
            | Some d \<Rightarrow>
                (let c = Insert ''categories'' (omit ''id'' d); s1 = issue c s in
                 case single_reply R (calls s) c of
                   Threw e \<Rightarrow> (Some e, localCategories, localPaymentMethods, s1)
                 | Failure e \<Rightarrow> (None, localCategories, localPaymentMethods, s1)
                 | Success r \<Rightarrow>
                     (let cs = filter (\<lambda>c. get_prop c ''id'' \<noteq> get_prop d ''id'')
                                 localCategories @ [r]
                      in (None, cs, localPaymentMethods, s1\<lparr>st_categories := Some cs\<rparr>))))
         else if a_type a = ''delete'' then
           (let c = Delete ''categories'' [(''id'', a_id a)]; s1 = issue c s in
            case void_reply R (calls s) c of
              Threw e \<Rightarrow> (Some e, localCategories, localPaymentMethods, s1)
            | _ \<Rightarrow>
                (let cs = filter (\<lambda>c. get_prop c ''id'' \<noteq> a_id a) localCategories
                 in (None, cs, localPaymentMethods, s1\<lparr>st_categories := Some cs\<rparr>)))
         else (None, localCategories, localPaymentMethods, s))
      else if a_entity a = Some ''payment_method'' then
        (if a_type a = ''add'' then
           (case a_data a of
              None \<Rightarrow> (Some (ErrorObj (utf16 ''TypeError'')), localCategories, localPaymentMethods, s)
            | Some d \<Rightarrow>
                (let c = Insert ''payment_methods'' (omit ''id'' d); s1 = issue c s in
                 case single_reply R (calls s) c of
                   Threw e \<Rightarrow> (Some e, localCategories, localPaymentMethods, s1)
                 | Failure e \<Rightarrow> (None, localCategories, localPaymentMethods, s1)
                 | Success r \<Rightarrow>
                     (let ps = filter (\<lambda>p. get_prop p ''id'' \<noteq> get_prop d ''id'')
                                 localPaymentMethods @ [r]
                      in (None, localCategories, ps, s1\<lparr>st_payment_methods := Some ps\<rparr>))))
         else if a_type a = ''delete'' then
           (let c = Delete ''payment_methods'' [(''id'', a_id a)]; s1 = issue c s in
            case void_reply R (calls s) c of
              Threw e \<Rightarrow> (Some e, localCategories, localPaymentMethods, s1)
            | _ \<Rightarrow>
                (let ps = filter (\<lambda>p. get_prop p ''id'' \<noteq> a_id a) localPaymentMethods
                 in (None, localCategories, ps, s1\<lparr>st_payment_methods := Some ps\<rparr>)))
         else (None, localCategories, localPaymentMethods, s))
      else (None, localCategories, localPaymentMethods, s))"

fun data_sync_loop ::
    "remote \<Rightarrow> action list \<Rightarrow> row list \<times> row list \<times> app \<Rightarrow> exn option \<times> row list \<times> row list \<times> app" where
  "data_sync_loop R [] ls = (None, ls)"
| "data_sync_loop R (a # as) ls =
     (case data_sync_step R a ls of
        (Some e, ls') \<Rightarrow> (Some e, ls')
      | (None, ls') \<Rightarrow> data_sync_loop R as ls')"

definition data_syncQueue :: "remote \<Rightarrow> bool \<Rightarrow> app \<Rightarrow> app" where
  "data_syncQueue R online s0 =
     (let s = s0\<lparr>d_isSyncing := True\<rparr>;
          localCategories = or_empty (st_categories s);
          localPaymentMethods = or_empty (st_payment_methods s);
          queue = getQueue s
      in case data_sync_loop R queue (localCategories, localPaymentMethods, s) of
           (Some e, _, _, s') \<Rightarrow> s'\<lparr>d_isSyncing := False\<rparr>
         | (None, _, _, s') \<Rightarrow>
             (refreshData R online (clearQueue s'))\<lparr>d_isSyncing := False\<rparr>)"

text \<open>
  \<^verbatim>\<open>updateCategoryOrder\<close> and \<^verbatim>\<open>updatePaymentMethodOrder\<close>: one update per name, each
  awaited and its reply not read, then the refresh; there is no \<^verbatim>\<open>catch\<close>, so an
  exception leaves the function after the \<^verbatim>\<open>finally\<close> block.
\<close>

fun category_order_loop :: "remote \<Rightarrow> jstring \<Rightarrow> nat \<Rightarrow> jstring list \<Rightarrow> app \<Rightarrow> exn option \<times> app" where
  "category_order_loop R ty i [] s = (None, s)"
| "category_order_loop R ty i (n # ns) s =
     (let c = Update ''categories'' (Some [(''order'', JNum (int i))])
                [(''name'', Some (JStr n)), (''type'', Some (JStr ty))];
          s1 = issue c s in
      case void_reply R (calls s) c of
        Threw e \<Rightarrow> (Some e, s1)
      | _ \<Rightarrow> category_order_loop R ty (Suc i) ns s1)"

definition updateCategoryOrder ::
    "remote \<Rightarrow> bool \<Rightarrow> jstring \<Rightarrow> jstring list \<Rightarrow> app \<Rightarrow> app \<times> exn option" where
  "updateCategoryOrder R online ty orderedNames s0 =
     (let s = s0\<lparr>d_isLoading := True\<rparr> in
      case category_order_loop R ty 0 orderedNames s of
        (Some e, s1) \<Rightarrow> (s1\<lparr>d_isLoading := False\<rparr>, Some e)
      | (None, s1) \<Rightarrow> ((refreshData R online s1)\<lparr>d_isLoading := False\<rparr>, None))"

fun payment_order_loop :: "remote \<Rightarrow> nat \<Rightarrow> jstring list \<Rightarrow> app \<Rightarrow> exn option \<times> app" where
  "payment_order_loop R i [] s = (None, s)"
| "payment_order_loop R i (n # ns) s =
     (let c = Update ''payment_methods'' (Some [(''order'', JNum (int i))])
                [(''name'', Some (JStr n))];
          s1 = issue c s in
      case void_reply R (calls s) c of
        Threw e \<Rightarrow> (Some e, s1)
      | _ \<Rightarrow> payment_order_loop R (Suc i) ns s1)"

definition updatePaymentMethodOrder ::
    "remote \<Rightarrow> bool \<Rightarrow> jstring list \<Rightarrow> app \<Rightarrow> app \<times> exn option" where
  "updatePaymentMethodOrder R online orderedNames s0 =
     (let s = s0\<lparr>d_isLoading := True\<rparr> in
      case payment_order_loop R 0 orderedNames s of
        (Some e, s1) \<Rightarrow> (s1\<lparr>d_isLoading := False\<rparr>, Some e)
      | (None, s1) \<Rightarrow> ((refreshData R online s1)\<lparr>d_isLoading := False\<rparr>, None))"

text \<open>
  \<^verbatim>\<open>String.prototype.trim\<close> removes white space and line terminators from both ends:
  the code units of tab, line feed, vertical tab, form feed, carriage return, space,
  no-break space, the byte order mark, the line and paragraph separators and the other
  space separators of Unicode.
\<close>

definition is_space :: "16 word \<Rightarrow> bool" where
  "is_space c = (c \<in> set [0x0009, 0x000A, 0x000B, 0x000C, 0x000D, 0x0020, 0x00A0, 0x1680,
     0x2000, 0x2001, 0x2002, 0x2003, 0x2004, 0x2005, 0x2006, 0x2007, 0x2008, 0x2009, 0x200A,
     0x2028, 0x2029, 0x202F, 0x205F, 0x3000, 0xFEFF])"

definition js_trim :: "jstring \<Rightarrow> jstring" where
  "js_trim s = rev (dropWhile is_space (rev (dropWhile is_space s)))"

text \<open>
  The writes of the store. None of them rethrows: the promise of an add or a remove is
  never rejected, so the second component of the result is always \<open>None\<close>.

  A function of the provider is created anew at each render and sees the lists of names
  as they were at that render. The guard of the three adds reads such a list: it is the
  argument \<open>rendered\<close>. It is the list of the state when the function is the one of the
  latest render; it is an older list when the same function is called again before the
  next render. The updates \<^verbatim>\<open>setExpenseCategories(prev => ...)\<close> work on the state.
\<close>

definition addExpenseCategory ::
    "remote \<Rightarrow> bool \<Rightarrow> nat \<Rightarrow> jval option list \<Rightarrow> jstring \<Rightarrow> app \<Rightarrow> app \<times> exn option" where
  "addExpenseCategory R online now rendered category s0 =
     (if js_trim category = [] \<or> Some (JStr category) \<in> set rendered then (s0, None)
      else
        (let s = s0\<lparr>d_isLoading := True, d_error := None\<rparr>;
             s' =
               (if \<not> online then
                  (let localCategories = or_empty (st_categories s);
                       tempId = utf16 (''offline-cat-'' @ string_of_nat now);
                       newCat = [(''id'', JStr tempId), (''name'', JStr category),
                                 (''type'', JStr (utf16 ''expense''))];
                       s1 = s\<lparr>st_categories := Some (localCategories @ [newCat])\<rparr>;
                       s2 = addToQueue
                              ((mk_action ''add'')\<lparr>a_entity := Some ''category'',
                                 a_data := Some newCat\<rparr>) s1
                   in s2\<lparr>expenseCategories := expenseCategories s2 @ [Some (JStr category)]\<rparr>)
                else
                  (let c = Insert ''categories''
                             [(''name'', JStr category), (''type'', JStr (utf16 ''expense''))];
                       s1 = issue c s in
                   case single_reply R (calls s) c of
                     Threw e \<Rightarrow> s1\<lparr>d_error := Some (message_or e (utf16 ''Failed to add expense category''))\<rparr>
                   | Failure e \<Rightarrow> s1\<lparr>d_error := Some (message_or e (utf16 ''Failed to add expense category''))\<rparr>
                   | Success d \<Rightarrow>
                       (let localCategories = or_empty (st_categories s1);
                            s2 = s1\<lparr>st_categories := Some (localCategories @ [d])\<rparr>
                        in s2\<lparr>expenseCategories := expenseCategories s2 @ [Some (JStr category)]\<rparr>)))
         in (s'\<lparr>d_isLoading := False\<rparr>, None)))"

definition removeExpenseCategory :: "remote \<Rightarrow> bool \<Rightarrow> jstring \<Rightarrow> app \<Rightarrow> app \<times> exn option" where
  "removeExpenseCategory R online category s0 =
     (let s = s0\<lparr>d_isLoading := True, d_error := None\<rparr>;
          is_it = (\<lambda>c. get_prop c ''name'' = Some (JStr category)
                        \<and> get_prop c ''type'' = Some (JStr (utf16 ''expense'')));
          s' =
            (if \<not> online then
               (let localCategories = or_empty (st_categories s);
                    s2 = (case find is_it localCategories of
                            None \<Rightarrow> s
                          | Some cat \<Rightarrow>
                              addToQueue
                                ((mk_action ''delete'')\<lparr>a_entity := Some ''category'',
                                   a_id := get_prop cat ''id''\<rparr>)
                                (s\<lparr>st_categories := Some (filter
                                     (\<lambda>c. get_prop c ''id'' \<noteq> get_prop cat ''id'')
                                     localCategories)\<rparr>))
                in s2\<lparr>expenseCategories := filter (\<lambda>c. c \<noteq> Some (JStr category)) (expenseCategories s2)\<rparr>)
             else
               (let c = Delete ''categories''
                          [(''name'', Some (JStr category)),
                           (''type'', Some (JStr (utf16 ''expense'')))];
                    s1 = issue c s in
                case void_reply R (calls s) c of
                  Threw e \<Rightarrow> s1\<lparr>d_error := Some (message_or e (utf16 ''Failed to remove expense category''))\<rparr>
                | Failure e \<Rightarrow> s1\<lparr>d_error := Some (message_or e (utf16 ''Failed to remove expense category''))\<rparr>
                | Success _ \<Rightarrow>
                    (let localCategories = or_empty (st_categories s1);
                         s2 = s1\<lparr>st_categories :=
                                Some (filter (\<lambda>c. \<not> is_it c) localCategories)\<rparr>
                     in s2\<lparr>expenseCategories :=
                            filter (\<lambda>c. c \<noteq> Some (JStr category)) (expenseCategories s2)\<rparr>)))
      in (s'\<lparr>d_isLoading := False\<rparr>, None))"

definition addIncomeCategory ::
    "remote \<Rightarrow> bool \<Rightarrow> nat \<Rightarrow> jval option list \<Rightarrow> jstring \<Rightarrow> app \<Rightarrow> app \<times> exn option" where
  "addIncomeCategory R online now rendered category s0 =
     (if js_trim category = [] \<or> Some (JStr category) \<in> set rendered then (s0, None)
      else
        (let s = s0\<lparr>d_isLoading := True, d_error := None\<rparr>;
             s' =
               (if \<not> online then
                  (let localCategories = or_empty (st_categories s);
                       tempId = utf16 (''offline-cat-'' @ string_of_nat now);
                       newCat = [(''id'', JStr tempId), (''name'', JStr category),
                                 (''type'', JStr (utf16 ''income''))];
                       s1 = s\<lparr>st_categories := Some (localCategories @ [newCat])\<rparr>;
                       s2 = addToQueue
                              ((mk_action ''add'')\<lparr>a_entity := Some ''category'',
                                 a_data := Some newCat\<rparr>) s1
                   in s2\<lparr>incomeCategories := incomeCategories s2 @ [Some (JStr category)]\<rparr>)
                else
                  (let c = Insert ''categories''
                             [(''name'', JStr category), (''type'', JStr (utf16 ''income''))];
                       s1 = issue c s in
                   case single_reply R (calls s) c of
                     Threw e \<Rightarrow> s1\<lparr>d_error := Some (message_or e (utf16 ''Failed to add income category''))\<rparr>
                   | Failure e \<Rightarrow> s1\<lparr>d_error := Some (message_or e (utf16 ''Failed to add income category''))\<rparr>
                   | Success d \<Rightarrow>
                       (let localCategories = or_empty (st_categories s1);
                            s2 = s1\<lparr>st_categories := Some (localCategories @ [d])\<rparr>
                        in s2\<lparr>incomeCategories := incomeCategories s2 @ [Some (JStr category)]\<rparr>)))
         in (s'\<lparr>d_isLoading := False\<rparr>, None)))"

definition removeIncomeCategory :: "remote \<Rightarrow> bool \<Rightarrow> jstring \<Rightarrow> app \<Rightarrow> app \<times> exn option" where
  "removeIncomeCategory R online category s0 =
     (let s = s0\<lparr>d_isLoading := True, d_error := None\<rparr>;
          is_it = (\<lambda>c. get_prop c ''name'' = Some (JStr category)
                        \<and> get_prop c ''type'' = Some (JStr (utf16 ''income'')));
          s' =
            (if \<not> online then
               (let localCategories = or_empty (st_categories s);
                    s2 = (case find is_it localCategories of
                            None \<Rightarrow> s
                          | Some cat \<Rightarrow>
                              addToQueue
                                ((mk_action ''delete'')\<lparr>a_entity := Some ''category'',
                                   a_id := get_prop cat ''id''\<rparr>)
                                (s\<lparr>st_categories := Some (filter
                                     (\<lambda>c. get_prop c ''id'' \<noteq> get_prop cat ''id'')
                                     localCategories)\<rparr>))
                in s2\<lparr>incomeCategories := filter (\<lambda>c. c \<noteq> Some (JStr category)) (incomeCategories s2)\<rparr>)
             else
               (let c = Delete ''categories''
                          [(''name'', Some (JStr category)),
                           (''type'', Some (JStr (utf16 ''income'')))];
                    s1 = issue c s in
                case void_reply R (calls s) c of
                  Threw e \<Rightarrow> s1\<lparr>d_error := Some (message_or e (utf16 ''Failed to remove income category''))\<rparr>
                | Failure e \<Rightarrow> s1\<lparr>d_error := Some (message_or e (utf16 ''Failed to remove income category''))\<rparr>
                | Success _ \<Rightarrow>
                    (let localCategories = or_empty (st_categories s1);
                         s2 = s1\<lparr>st_categories :=
                                Some (filter (\<lambda>c. \<not> is_it c) localCategories)\<rparr>
                     in s2\<lparr>incomeCategories :=
                            filter (\<lambda>c. c \<noteq> Some (JStr category)) (incomeCategories s2)\<rparr>)))
      in (s'\<lparr>d_isLoading := False\<rparr>, None))"

definition addPaymentMethod ::
    "remote \<Rightarrow> bool \<Rightarrow> nat \<Rightarrow> jval option list \<Rightarrow> jstring \<Rightarrow> app \<Rightarrow> app \<times> exn option" where
  "addPaymentMethod R online now rendered method s0 =
     (if js_trim method = [] \<or> Some (JStr method) \<in> set rendered then (s0, None)
      else
        (let s = s0\<lparr>d_isLoading := True, d_error := None\<rparr>;
             s' =
               (if \<not> online then
                  (let localPaymentMethods = or_empty (st_payment_methods s);
                       tempId = utf16 (''offline-pay-'' @ string_of_nat now);
                       newPay = [(''id'', JStr tempId), (''name'', JStr method)];
                       s1 = s\<lparr>st_payment_methods := Some (localPaymentMethods @ [newPay])\<rparr>;
                       s2 = addToQueue
                              ((mk_action ''add'')\<lparr>a_entity := Some ''payment_method'',
                                 a_data := Some newPay\<rparr>) s1
                   in s2\<lparr>paymentMethods := paymentMethods s2 @ [Some (JStr method)]\<rparr>)
                else
                  (let c = Insert ''payment_methods'' [(''name'', JStr method)];
                       s1 = issue c s in
                   case single_reply R (calls s) c of
                     Threw e \<Rightarrow>
                       s1\<lparr>d_error := Some (message_or e (utf16 ''Failed to add payment method''))\<rparr>
                   | Failure e \<Rightarrow>
                       s1\<lparr>d_error := Some (message_or e (utf16 ''Failed to add payment method''))\<rparr>
                   | Success d \<Rightarrow>
                       (let localPaymentMethods = or_empty (st_payment_methods s1);
                            s2 = s1\<lparr>st_payment_methods := Some (localPaymentMethods @ [d])\<rparr>
                        in s2\<lparr>paymentMethods := paymentMethods s2 @ [Some (JStr method)]\<rparr>)))
         in (s'\<lparr>d_isLoading := False\<rparr>, None)))"

definition removePaymentMethod :: "remote \<Rightarrow> bool \<Rightarrow> jstring \<Rightarrow> app \<Rightarrow> app \<times> exn option" where
  "removePaymentMethod R online method s0 =
     (let s = s0\<lparr>d_isLoading := True, d_error := None\<rparr>;
          s' =
            (if \<not> online then
               (let localPaymentMethods = or_empty (st_payment_methods s);
                    s2 = (case find (\<lambda>p. get_prop p ''name'' = Some (JStr method))
                                 localPaymentMethods of
                            None \<Rightarrow> s
                          | Some pay \<Rightarrow>
                              addToQueue
                                ((mk_action ''delete'')\<lparr>a_entity := Some ''payment_method'',
                                   a_id := get_prop pay ''id''\<rparr>)
                                (s\<lparr>st_payment_methods := Some (filter
                                     (\<lambda>p. get_prop p ''id'' \<noteq> get_prop pay ''id'')
                                     localPaymentMethods)\<rparr>))
                in s2\<lparr>paymentMethods := filter (\<lambda>m. m \<noteq> Some (JStr method)) (paymentMethods s2)\<rparr>)
             else
               (let c = Delete ''payment_methods'' [(''name'', Some (JStr method))];
                    s1 = issue c s in
                case void_reply R (calls s) c of
                  Threw e \<Rightarrow>
                    s1\<lparr>d_error := Some (message_or e (utf16 ''Failed to remove payment method''))\<rparr>
                | Failure e \<Rightarrow>
                    s1\<lparr>d_error := Some (message_or e (utf16 ''Failed to remove payment method''))\<rparr>
                | Success _ \<Rightarrow>
                    (let localPaymentMethods = or_empty (st_payment_methods s1);
                         s2 = s1\<lparr>st_payment_methods := Some (filter
                                (\<lambda>p. get_prop p ''name'' \<noteq> Some (JStr method))
                                localPaymentMethods)\<rparr>
                     in s2\<lparr>paymentMethods :=
                            filter (\<lambda>m. m \<noteq> Some (JStr method)) (paymentMethods s2)\<rparr>)))
      in (s'\<lparr>d_isLoading := False\<rparr>, None))"

section \<open>Initial state and sample remote stores\<close>

text \<open>
  The state at mount: nothing persisted, no call issued, the \<^verbatim>\<open>useState\<close> initial values
  (\<open>online\<close> is \<^verbatim>\<open>navigator.onLine\<close> at that moment).
\<close>

definition init_app :: "bool \<Rightarrow> app" where
  "init_app online =
     \<lparr>st_transactions = None, st_categories = None, st_payment_methods = None,
      st_queue = None, calls = [], transactions = [],
      t_isLoading = False, t_isConnected = online, t_isOffline = (\<not> online),
      t_isSyncing = False, t_error = None,
      expenseCategories = [], incomeCategories = [], paymentMethods = [],
      d_isLoading = False, d_isOffline = (\<not> online), d_isSyncing = False, d_error = None\<rparr>"

text \<open>
  A remote store that accepts every call: an inserted or updated row comes back under an
  identifier made from the number of calls received before, a listing is empty.
\<close>

definition server_id :: "call list \<Rightarrow> jval" where
  "server_id h = JStr (utf16 (''srv'' @ replicate (length h) CHR ''+''))"

definition accepting_remote :: remote where
  "accepting_remote =
     \<lparr>single_reply = (\<lambda>h c. Success (set_prop ''id'' (server_id h)
                                (case c of Insert _ r \<Rightarrow> r | Update _ (Some r) _ \<Rightarrow> r | _ \<Rightarrow> []))),
      rows_reply = (\<lambda>h c. Success []),
      void_reply = (\<lambda>h c. Success ())\<rparr>"

text \<open>A remote store that refuses every call, and one on which every call throws.\<close>

definition rejecting_remote :: remote where
  "rejecting_remote =
     \<lparr>single_reply = (\<lambda>h c. Failure (NonError (utf16 ''42501''))),
      rows_reply = (\<lambda>h c. Failure (NonError (utf16 ''42501''))),
      void_reply = (\<lambda>h c. Failure (NonError (utf16 ''42501'')))\<rparr>"

definition throwing_remote :: remote where
  "throwing_remote =
     \<lparr>single_reply = (\<lambda>h c. Threw (ErrorObj (utf16 ''Failed to fetch''))),
      rows_reply = (\<lambda>h c. Threw (ErrorObj (utf16 ''Failed to fetch''))),
      void_reply = (\<lambda>h c. Threw (ErrorObj (utf16 ''Failed to fetch'')))\<rparr>"

text \<open>The accepting remote store, with a fixed answer to every listing.\<close>

definition listing_remote :: "row list \<Rightarrow> remote" where
  "listing_remote rows = accepting_remote\<lparr>rows_reply := (\<lambda>h c. Success rows)\<rparr>"

text \<open>A remote store that refuses every write and answers every listing with fixed rows.\<close>

definition read_only_remote :: "row list \<Rightarrow> remote" where
  "read_only_remote rows = rejecting_remote\<lparr>rows_reply := (\<lambda>h c. Success rows)\<rparr>"

text \<open>
  The accepting remote store that keeps what it is given: a listing returns the rows
  inserted into the transactions table so far, each under the identifier it was
  returned with. \<open>stored_rows pre h\<close> are the rows of the calls \<open>h\<close> that came after the
  calls \<open>pre\<close>.
\<close>

fun stored_rows :: "call list \<Rightarrow> call list \<Rightarrow> row list" where
  "stored_rows pre [] = []"
| "stored_rows pre (c # h) =
     (case c of
        Insert t r \<Rightarrow> (if t = ''transactions'' then [set_prop ''id'' (server_id pre) r] else [])
      | _ \<Rightarrow> [])
     @ stored_rows (pre @ [c]) h"

definition recording_remote :: remote where
  "recording_remote = accepting_remote\<lparr>rows_reply := (\<lambda>h c. Success (stored_rows [] h))\<rparr>"

text \<open>
  The recording remote store, on which an update or delete throws when it is the second
  call received.
\<close>

definition flaky_remote :: remote where
  "flaky_remote =
     recording_remote\<lparr>void_reply :=
       (\<lambda>h c. if length h = 1 then Threw (ErrorObj (utf16 ''Failed to fetch'')) else Success ())\<rparr>"

text \<open>
  A temporary identifier is one the client made up while offline: the string starts with
  \<^verbatim>\<open>offline-\<close>.
\<close>

definition is_temp_id :: "jval option \<Rightarrow> bool" where
  "is_temp_id v = (case v of Some (JStr s) \<Rightarrow> take 8 s = utf16 ''offline-'' | _ \<Rightarrow> False)"

section \<open>Notions used by the properties\<close>

definition row_id :: "row \<Rightarrow> jval option" where
  "row_id t = get_prop t ''id''"

text \<open>
  Dates are ISO strings (\<^verbatim>\<open>2024-01-05\<close>), which the lexicographic order on strings orders
  by date. A collection is ordered by date descending when no row is followed by a row
  of a later date.
\<close>

definition date_of :: "row \<Rightarrow> jstring" where
  "date_of t = (case get_prop t ''date'' of Some (JStr d) \<Rightarrow> d | _ \<Rightarrow> [])"

definition date_desc :: "row list \<Rightarrow> bool" where
  "date_desc rows = sorted_wrt (\<lambda>a b. date_of b \<le> date_of a) rows"

text \<open>The awaited call did not succeed: it returned an error or it threw.\<close>

definition rejected :: "'a reply \<Rightarrow> exn \<Rightarrow> bool" where
  "rejected r e = (r = Failure e \<or> r = Threw e)"

text \<open>
  The Local Store: the in-memory collections of both providers and everything
  persisted.
\<close>

definition local_store_untouched :: "app \<Rightarrow> app \<Rightarrow> bool" where
  "local_store_untouched s s' \<longleftrightarrow>
     transactions s' = transactions s \<and> expenseCategories s' = expenseCategories s \<and>
     incomeCategories s' = incomeCategories s \<and> paymentMethods s' = paymentMethods s \<and>
     st_transactions s' = st_transactions s \<and>
     st_categories s' = st_categories s \<and> st_payment_methods s' = st_payment_methods s \<and>
     st_queue s' = st_queue s"

text \<open>The remote call that one turn of the transaction drain issues for an action, if any.\<close>

definition remote_call_of :: "action \<Rightarrow> call option" where
  "remote_call_of a =
     (if a_type a = ''add'' then map_option (\<lambda>d. Insert ''transactions'' (omit ''id'' d)) (a_data a)
      else if a_type a = ''update'' then Some (Update ''transactions'' (a_data a) [(''id'', a_id a)])
      else if a_type a = ''delete'' then Some (Delete ''transactions'' [(''id'', a_id a)])
      else None)"

section \<open>Sample data\<close>

definition tx_a1 :: row where
  "tx_a1 = [(''id'', JStr (utf16 ''a1'')), (''date'', JStr (utf16 ''2024-01-05'')),
            (''amount'', JNum 42), (''category'', JStr (utf16 ''Food''))]"

definition old_tx :: row where
  "old_tx = [(''date'', JStr (utf16 ''2024-01-01'')), (''amount'', JNum 7),
             (''category'', JStr (utf16 ''Rent''))]"

definition cat_c1 :: row where
  "cat_c1 = [(''id'', JStr (utf16 ''c1'')), (''name'', JStr (utf16 ''Food'')),
             (''type'', JStr (utf16 ''expense''))]"

definition cat_c2 :: row where
  "cat_c2 = [(''id'', JStr (utf16 ''c2'')), (''name'', JStr (utf16 ''Travel'')),
             (''type'', JStr (utf16 ''expense''))]"

text \<open>The application mounted offline over a Local Store left by an earlier session.\<close>

definition cached_app :: app where
  "cached_app = (init_app False)\<lparr>st_transactions := Some [tx_a1], transactions := [tx_a1]\<rparr>"

definition cached_data_app :: app where
  "cached_data_app =
     (init_app False)\<lparr>st_categories := Some [cat_c1],
       expenseCategories := [Some (JStr (utf16 ''Food''))],
       incomeCategories := [Some (JStr (utf16 ''Salary''))],
       paymentMethods := [Some (JStr (utf16 ''Cash''))]\<rparr>"

text \<open>States reached by writes made offline.\<close>

definition queued_delete :: app where
  "queued_delete = fst (removeTransaction rejecting_remote False (utf16 ''a1'') cached_app)"

definition queued_cat_delete :: app where
  "queued_cat_delete =
     fst (removeExpenseCategory rejecting_remote False (utf16 ''Food'') cached_data_app)"

definition queued_rename :: app where
  "queued_rename =
     fst (bulkRenameInTransactions accepting_remote False ''category'' (utf16 ''Food'')
            (utf16 ''Dining'') cached_app)"

definition queued_three :: app where
  "queued_three =
     fst (removeTransaction accepting_remote False (utf16 ''a1'')
       (fst (bulkRenameInTransactions accepting_remote False ''category'' (utf16 ''Food'')
               (utf16 ''Dining'')
         (fst (updateTransaction accepting_remote False (utf16 ''a1'') [(''amount'', JNum 50)]
            cached_app)))))"

definition queued_add :: app where
  "queued_add = fst (addTransaction accepting_remote False 7 old_tx cached_app)"

definition queued_add_delete :: app where
  "queued_add_delete =
     fst (removeTransaction accepting_remote False (utf16 ''offline-7'') queued_add)"


text \<open>
  One transaction added offline on a fresh installation, and the two calls of the drain
  that one reconnection starts (the \<^verbatim>\<open>online\<close> handler and the effect on the
  connectivity flags), taking turns: both begin, each makes its one turn, each ends.
\<close>

definition fresh_add :: app where
  "fresh_add = fst (addTransaction recording_remote False 7 old_tx (init_app False))"

definition first_begun :: "drain_call \<times> app" where
  "first_begun = drain_begin fresh_add"

definition second_begun :: "drain_call \<times> app" where
  "second_begun = drain_begin (snd first_begun)"

definition first_turned :: "exn option \<times> drain_call \<times> app" where
  "first_turned = drain_turn recording_remote (fst first_begun, snd second_begun)"

definition second_turned :: "exn option \<times> drain_call \<times> app" where
  "second_turned = drain_turn recording_remote (fst second_begun, snd (snd first_turned))"

definition first_ended :: app where
  "first_ended = drain_end recording_remote True (fst first_turned) (snd (snd second_turned))"

definition both_ended :: app where
  "both_ended = drain_end recording_remote True (fst second_turned) first_ended"

text \<open>
  A transaction added and another deleted offline, a drain that is cut short by an
  exception at its second call, and the drain of the next reconnection.
\<close>

definition queued_add_remove :: app where
  "queued_add_remove = fst (removeTransaction flaky_remote False (utf16 ''a1'') queued_add)"

definition cut_short :: app where
  "cut_short = syncQueue flaky_remote True queued_add_remove"

definition retried :: app where
  "retried = syncQueue flaky_remote True cut_short"

text \<open>The same add function of an earlier render, called twice while offline.\<close>

definition added_once :: app where
  "added_once = fst (addExpenseCategory accepting_remote False 7 [] (utf16 ''Rent'') (init_app False))"

definition added_twice :: app where
  "added_twice = fst (addExpenseCategory accepting_remote False 8 [] (utf16 ''Rent'') added_once)"

section \<open>Auxiliary facts\<close>

lemmas tx_defs = refreshTransactions_def sync_step_def drainQueue_def syncQueue_def
  addTransaction_def removeTransaction_def updateTransaction_def bulkRenameInTransactions_def
  t_caught_def getQueue_def addToQueue_def clearQueue_def issue_def or_empty_def mk_action_def
  get_prop_def omit_def spread_def message_or_def init_app_def Let_def

lemmas data_defs = refreshData_def data_sync_step_def data_syncQueue_def names_of_type_def
  d_caught_def removeExpenseCategory_def addExpenseCategory_def addIncomeCategory_def
  addPaymentMethod_def removeIncomeCategory_def removePaymentMethod_def
  updateCategoryOrder_def updatePaymentMethodOrder_def

lemmas step_defs = drain_begin_def drain_turn_def drain_end_def

lemma string_of_nat_7: "string_of_nat 7 = ''7''"
  by code_simp

lemma string_of_nat_8: "string_of_nat 8 = ''8''"
  by code_simp

lemma get_set_prop: "get_prop (set_prop k v r) k = Some v"
  by (induction r) (auto simp add: get_prop_def)

text \<open>Two literals have the same code units only if they are the same.\<close>

lemma code_unit_eq: "(of_nat (of_char c) :: 16 word) = of_nat (of_char d) \<longleftrightarrow> c = d"
proof
  assume a: "(of_nat (of_char c) :: 16 word) = of_nat (of_char d)"
  have c: "(of_char c :: nat) < 65536"
    using nat_of_char_less_256 [of c] by linarith
  have d: "(of_char d :: nat) < 65536"
    using nat_of_char_less_256 [of d] by linarith
  from a have "unat (of_nat (of_char c) :: 16 word) = unat (of_nat (of_char d) :: 16 word)"
    by (rule arg_cong)
  then have "(of_char c :: nat) mod 65536 = of_char d mod 65536"
    by (simp only: unat_of_nat) simp
  then have "(of_char c :: nat) = of_char d"
    using c d by (simp only: mod_less)
  then show "c = d" by (rule of_char_eqI)
next
  assume "c = d"
  then show "(of_nat (of_char c) :: 16 word) = of_nat (of_char d)" by (rule arg_cong)
qed

lemma utf16_eq [simp]: "utf16 a = utf16 b \<longleftrightarrow> a = b"
proof (induction a arbitrary: b)
  case Nil
  show ?case by (cases b) (simp_all add: utf16_def)
next
  case (Cons x a)
  show ?case
  proof (cases b)
    case Nil
    then show ?thesis by (simp add: utf16_def)
  next
    case (Cons y b')
    have "utf16 (x # a) = utf16 (y # b') \<longleftrightarrow>
        (of_nat (of_char x) :: 16 word) = of_nat (of_char y) \<and> utf16 a = utf16 b'"
      by (simp only: utf16_def list.map list.inject)
    then show ?thesis using Cons Cons.IH [of b'] by (simp only: code_unit_eq list.inject)
  qed
qed

section \<open>The drain of the transaction store, turn by turn\<close>

lemma sync_loop_Cons_ok:
  assumes "sync_loop R (a # q) (l, s) = (None, l', s')"
  obtains l1 s1 where "sync_step R a (l, s) = (None, l1, s1)"
    and "sync_loop R q (l1, s1) = (None, l', s')"
  using assms by (auto split: prod.splits option.splits)

text \<open>No turn writes the queue, and each turn issues the call of its action or none.\<close>

lemma sync_step_frame:
  "st_queue (snd (snd (sync_step R a (l, s)))) = st_queue s
   \<and> calls (snd (snd (sync_step R a (l, s)))) =
       calls s @ (case remote_call_of a of None \<Rightarrow> [] | Some c \<Rightarrow> [c])"
  by (simp add: sync_step_def remote_call_of_def Let_def issue_def
      split: option.splits reply.splits)

lemma sync_loop_queue:
  "st_queue (snd (snd (sync_loop R q (l, s)))) = st_queue s"
proof (induction q arbitrary: l s)
  case Nil
  show ?case by simp
next
  case (Cons a q)
  obtain r l1 s1 where st: "sync_step R a (l, s) = (r, l1, s1)"
    by (cases "sync_step R a (l, s)") auto
  have "st_queue s1 = st_queue s"
    using sync_step_frame [of R a l s] st by simp
  then show ?case using st Cons.IH [of l1 s1] by (cases r) auto
qed

text \<open>
  When no turn throws, the calls issued are those of the \<^verbatim>\<open>add\<close>, \<^verbatim>\<open>update\<close> and
  \<^verbatim>\<open>delete\<close> actions, in the order of the queue; in any case they are those of a prefix
  of the queue.
\<close>

lemma sync_loop_calls_in_order:
  assumes "sync_loop R q (l, s) = (None, l', s')"
  shows "calls s' = calls s @ List.map_filter remote_call_of q"
  using assms
proof (induction q arbitrary: l s)
  case Nil
  then show ?case by (simp add: List.map_filter_simps)
next
  case (Cons a q)
  from Cons.prems obtain l1 s1 where
    st: "sync_step R a (l, s) = (None, l1, s1)" and lp: "sync_loop R q (l1, s1) = (None, l', s')"
    by (rule sync_loop_Cons_ok)
  have "calls s1 = calls s @ (case remote_call_of a of None \<Rightarrow> [] | Some c \<Rightarrow> [c])"
    using sync_step_frame [of R a l s] st by simp
  moreover have "calls s' = calls s1 @ List.map_filter remote_call_of q"
    using Cons.IH [OF lp] .
  ultimately show ?case
    by (simp add: List.map_filter_simps split: option.splits)
qed

lemma sync_loop_calls_prefix:
  "\<exists>n. calls (snd (snd (sync_loop R q (l, s)))) =
        calls s @ List.map_filter remote_call_of (take n q)"
proof (induction q arbitrary: l s)
  case Nil
  show ?case by (simp add: List.map_filter_simps)
next
  case (Cons a q)
  obtain r l1 s1 where st: "sync_step R a (l, s) = (r, l1, s1)"
    by (cases "sync_step R a (l, s)") auto
  have c1: "calls s1 = calls s @ List.map_filter remote_call_of [a]"
    using sync_step_frame [of R a l s] st
    by (simp add: List.map_filter_simps split: option.splits)
  show ?case
  proof (cases r)
    case None
    from Cons.IH [of l1 s1] obtain n where
      n: "calls (snd (snd (sync_loop R q (l1, s1)))) =
          calls s1 @ List.map_filter remote_call_of (take n q)"
      by (elim exE)
    have "List.map_filter remote_call_of (take (Suc n) (a # q))
        = List.map_filter remote_call_of [a] @ List.map_filter remote_call_of (take n q)"
      by (simp add: List.map_filter_simps split: option.splits)
    then have "calls (snd (snd (sync_loop R (a # q) (l, s))))
        = calls s @ List.map_filter remote_call_of (take (Suc n) (a # q))"
      using st None n c1 by simp
    then show ?thesis by (rule exI)
  next
    case (Some e)
    have "calls (snd (snd (sync_loop R (a # q) (l, s))))
        = calls s @ List.map_filter remote_call_of (take 1 (a # q))"
      using st Some c1 by simp
    then show ?thesis by (rule exI)
  qed
qed

text \<open>A drain that an exception ends leaves the queue as it found it.\<close>

lemma syncQueue_throw_keeps_queue:
  assumes "drainQueue R s = (False, l', s')"
  shows "st_queue (syncQueue R online s) = st_queue s"
proof -
  let ?lp = "sync_loop R (getQueue s) (or_empty (st_transactions s), s\<lparr>t_isSyncing := True\<rparr>)"
  have "s' = snd (snd ?lp)"
    using assms
    by (auto simp add: drainQueue_def getQueue_def Let_def split: prod.splits option.splits)
  then have "st_queue s' = st_queue s"
    using sync_loop_queue [of R "getQueue s" "or_empty (st_transactions s)"
        "s\<lparr>t_isSyncing := True\<rparr>"]
    by simp
  then show ?thesis using assms by (simp add: syncQueue_def)
qed

lemma throwing_call_keeps_queue:
  "st_queue (syncQueue throwing_remote True queued_delete) = st_queue queued_delete
   \<and> getQueue queued_delete = [(mk_action ''delete'')\<lparr>a_id := Some (JStr (utf16 ''a1''))\<rparr>]"
proof -
  have "fst (drainQueue throwing_remote queued_delete) = False"
    by (simp add: queued_delete_def cached_app_def tx_a1_def tx_defs throwing_remote_def)
  then obtain l' s' where "drainQueue throwing_remote queued_delete = (False, l', s')"
    by (cases "drainQueue throwing_remote queued_delete") auto
  then have "st_queue (syncQueue throwing_remote True queued_delete) = st_queue queued_delete"
    by (rule syncQueue_throw_keeps_queue)
  moreover have "getQueue queued_delete = [(mk_action ''delete'')\<lparr>a_id := Some (JStr (utf16 ''a1''))\<rparr>]"
    by (simp add: queued_delete_def cached_app_def tx_a1_def tx_defs)
  ultimately show ?thesis by simp
qed

text \<open>Each write made offline appends one action to the queue.\<close>

lemma offline_writes_append:
  "getQueue (fst (addTransaction R False now d s)) =
     getQueue s @ [(mk_action ''add'')\<lparr>a_data :=
        Some (set_prop ''id'' (JStr (utf16 (''offline-'' @ string_of_nat now))) d)\<rparr>]"
  "getQueue (fst (removeTransaction R False i s)) =
     getQueue s @ [(mk_action ''delete'')\<lparr>a_id := Some (JStr i)\<rparr>]"
  "getQueue (fst (updateTransaction R False i u s)) =
     getQueue s @ [(mk_action ''update'')\<lparr>a_id := Some (JStr i), a_data := Some u\<rparr>]"
  "getQueue (fst (bulkRenameInTransactions R False f old new s)) =
     getQueue s @ [(mk_action ''bulkRename'')\<lparr>a_field := Some f, a_oldValue := Some old,
        a_newValue := Some new\<rparr>]"
  by (simp_all add: addTransaction_def removeTransaction_def updateTransaction_def
      bulkRenameInTransactions_def addToQueue_def getQueue_def or_empty_def Let_def)

text \<open>
  After a completed drain the refresh replaces the persisted collection by the listing of
  the remote store when it is online and the listing succeeds, and leaves it otherwise.
\<close>

lemma syncQueue_store_after_drain:
  assumes "drainQueue R s = (True, l', s')"
  shows "st_transactions (syncQueue R online s) =
     (if online then
        (case rows_reply R (calls s') (Select ''transactions'' ''date'' False) of
           Success rows \<Rightarrow> Some rows | _ \<Rightarrow> st_transactions s')
      else st_transactions s')"
  using assms
  by (simp add: syncQueue_def refreshTransactions_def issue_def Let_def split: reply.splits)

text \<open>
  A turn for an \<^verbatim>\<open>add\<close> action that the remote store accepts removes every row under the
  identifier of the payload and puts the returned row first, in the loop variable, in
  memory and in the persisted collection.
\<close>

lemma add_turn_replaces:
  assumes "a_type a = ''add''" and "a_data a = Some d"
    and "single_reply R (calls s) (Insert ''transactions'' (omit ''id'' d)) = Success r"
  shows "sync_step R a (l, s) =
     (None, r # filter (\<lambda>t. row_id t \<noteq> row_id d) l,
      (issue (Insert ''transactions'' (omit ''id'' d)) s)
        \<lparr>transactions := r # filter (\<lambda>t. row_id t \<noteq> row_id d) l,
         st_transactions := Some (r # filter (\<lambda>t. row_id t \<noteq> row_id d) l)\<rparr>)"
  using assms by (simp add: sync_step_def row_id_def Let_def)

subsection \<open>The drain in steps\<close>

text \<open>Begun, turned once for every action of the queue and ended, with nothing in between, the steps are \<^verbatim>\<open>syncQueue\<close>.\<close>

lemma drain_turns_sync_loop:
  "fst (drain_turns R (length q) (\<lparr>dc_localTx = l, dc_queue = q\<rparr>, s)) = fst (sync_loop R q (l, s))
   \<and> dc_localTx (fst (snd (drain_turns R (length q) (\<lparr>dc_localTx = l, dc_queue = q\<rparr>, s))))
       = fst (snd (sync_loop R q (l, s)))
   \<and> snd (snd (drain_turns R (length q) (\<lparr>dc_localTx = l, dc_queue = q\<rparr>, s)))
       = snd (snd (sync_loop R q (l, s)))"
proof (induction q arbitrary: l s)
  case Nil
  show ?case by simp
next
  case (Cons a q)
  obtain e l1 s1 where st: "sync_step R a (l, s) = (e, l1, s1)"
    by (cases "sync_step R a (l, s)") auto
  show ?case
  proof (cases e)
    case None
    then show ?thesis using st Cons.IH [of l1 s1] by (simp add: drain_turn_def)
  next
    case (Some x)
    then show ?thesis using st by (simp add: drain_turn_def)
  qed
qed

lemma syncQueue_in_steps:
  "syncQueue R online s =
     drain_end R online (fst (drain_turns R (length (getQueue s)) (drain_begin s)))
       (snd (snd (drain_turns R (length (getQueue s)) (drain_begin s))))"
proof -
  let ?s = "s\<lparr>t_isSyncing := True\<rparr>"
  let ?l = "or_empty (st_transactions s)"
  have b: "drain_begin s = (\<lparr>dc_localTx = ?l, dc_queue = getQueue s\<rparr>, ?s)"
    by (simp add: drain_begin_def getQueue_def Let_def)
  obtain e l' s' where lp: "sync_loop R (getQueue s) (?l, ?s) = (e, l', s')"
    by (cases "sync_loop R (getQueue s) (?l, ?s)") auto
  have t: "fst (drain_turns R (length (getQueue s)) (drain_begin s)) = e"
    "snd (snd (drain_turns R (length (getQueue s)) (drain_begin s))) = s'"
    using drain_turns_sync_loop [of R "getQueue s" ?l ?s] lp b by simp_all
  have "syncQueue R online s = drain_end R online e s'"
    using lp
    by (cases e) (simp_all add: syncQueue_def drainQueue_def drain_end_def getQueue_def Let_def)
  then show ?thesis using t by simp
qed

section \<open>The claims\<close>

subsection \<open>C1: a failed remote call and the queue\<close>

text \<open>
  Claim C1 says that a remote call failing during the drain aborts the drain and leaves
  every queued action in the queue. The code keeps the queue only when a call throws
  (\<open>syncQueue_throw_keeps_queue\<close>). A call that the remote store refuses returns its
  error instead of throwing; the drain does not look at it, goes on, and clears the queue.
  Here one delete is queued, the remote store refuses it, and the queue is empty after
  the drain: the delete is lost without having been applied. The drain of the
  category and payment-method store does the same.
\<close>

theorem refused_call_still_clears_queue:
  "getQueue queued_delete = [(mk_action ''delete'')\<lparr>a_id := Some (JStr (utf16 ''a1''))\<rparr>]
   \<and> void_reply rejecting_remote [] (Delete ''transactions'' [(''id'', Some (JStr (utf16 ''a1'')))])
       = Failure (NonError (utf16 ''42501''))
   \<and> calls (syncQueue rejecting_remote True queued_delete) =
       [Delete ''transactions'' [(''id'', Some (JStr (utf16 ''a1'')))],
        Select ''transactions'' ''date'' False]
   \<and> st_queue (syncQueue rejecting_remote True queued_delete) = Some []
   \<and> getQueue queued_cat_delete =
       [(mk_action ''delete'')\<lparr>a_entity := Some ''category'', a_id := Some (JStr (utf16 ''c1''))\<rparr>]
   \<and> st_queue (data_syncQueue rejecting_remote True queued_cat_delete) = Some []"
  by (simp add: queued_delete_def queued_cat_delete_def cached_app_def cached_data_app_def
      tx_a1_def cat_c1_def tx_defs data_defs rejecting_remote_def)

subsection \<open>C2: replay of a bulk rename\<close>

text \<open>
  Claim C2 says that the drain applies every queued bulk rename remotely, by one update
  with a predicate. \<^verbatim>\<open>bulkRenameInTransactions\<close> queues an action of type
  \<^verbatim>\<open>bulkRename\<close> when offline, and the comment above the effect that triggers the drain
  announces its replay, but the loop of \<^verbatim>\<open>syncQueue\<close> has branches for \<^verbatim>\<open>add\<close>,
  \<^verbatim>\<open>update\<close> and \<^verbatim>\<open>delete\<close> only. Here the category Food is renamed to Dining
  offline; the drain issues no update at all, clears the queue, and the refresh brings
  the old category back into the Local Store.
\<close>

theorem bulkRename_entry_never_replayed:
  "getQueue queued_rename =
     [(mk_action ''bulkRename'')\<lparr>a_field := Some ''category'', a_oldValue := Some (utf16 ''Food''),
        a_newValue := Some (utf16 ''Dining'')\<rparr>]
   \<and> map (\<lambda>t. get_prop t ''category'') (or_empty (st_transactions queued_rename))
       = [Some (JStr (utf16 ''Dining''))]
   \<and> calls (syncQueue (listing_remote [tx_a1]) True queued_rename) =
       [Select ''transactions'' ''date'' False]
   \<and> st_queue (syncQueue (listing_remote [tx_a1]) True queued_rename) = Some []
   \<and> map (\<lambda>t. get_prop t ''category'')
         (or_empty (st_transactions (syncQueue (listing_remote [tx_a1]) True queued_rename)))
       = [Some (JStr (utf16 ''Food''))]"
  by (simp add: queued_rename_def cached_app_def tx_a1_def tx_defs listing_remote_def
      accepting_remote_def)

subsection \<open>C3: temporary identifiers are replaced\<close>

text \<open>
  Claim C3 says that an entity added offline under a temporary identifier is, after a
  successful drain, in the Local Store exactly once, under the identifier the server
  assigned, and not under the temporary identifier. The turn for an \<^verbatim>\<open>add\<close> action is
  written to do this (\<open>add_turn_replaces\<close>; its comment reads
  \<^verbatim>\<open>Replace offline tx with real tx in local cache and UI\<close>), but the program replays
  an add that was already applied, and then the entity is in the Local Store twice,
  under two server identifiers.

  First, one reconnection starts the drain twice (the \<^verbatim>\<open>online\<close> handler and the effect
  on the connectivity flags). Both calls read the queue before either clears it, both
  insert the entity, both clear the queue and refresh: the remote store holds two rows
  for the one entity and so does the Local Store.

  Second, a drain that an exception cuts short keeps the whole queue, the adds that were
  accepted included. Here the insert is accepted and the delete that follows throws; the
  drain of the next reconnection inserts the entity again.
\<close>

lemma overlapping_drains_facts:
  "map a_type (getQueue fresh_add) = [''add'']
   \<and> map row_id (or_empty (st_transactions fresh_add)) = [Some (JStr (utf16 ''offline-7''))]
   \<and> fst first_turned = None \<and> dc_queue (fst (snd first_turned)) = []
   \<and> fst second_turned = None \<and> dc_queue (fst (snd second_turned)) = []
   \<and> calls both_ended =
       [Insert ''transactions'' old_tx, Insert ''transactions'' old_tx,
        Select ''transactions'' ''date'' False, Select ''transactions'' ''date'' False]
   \<and> st_queue both_ended = Some []
   \<and> map (omit ''id'') (or_empty (st_transactions both_ended)) = [old_tx, old_tx]
   \<and> map row_id (or_empty (st_transactions both_ended))
       = [Some (JStr (utf16 ''srv'')), Some (JStr (utf16 ''srv+''))]"
  by (simp add: both_ended_def first_ended_def second_turned_def first_turned_def
      second_begun_def first_begun_def fresh_add_def step_defs tx_defs old_tx_def
      recording_remote_def accepting_remote_def server_id_def row_id_def string_of_nat_7)

lemma retried_drain_facts:
  "map a_type (getQueue queued_add_remove) = [''add'', ''delete'']
   \<and> calls cut_short =
       [Insert ''transactions'' old_tx,
        Delete ''transactions'' [(''id'', Some (JStr (utf16 ''a1'')))]]
   \<and> getQueue cut_short = getQueue queued_add_remove
   \<and> calls retried =
       [Insert ''transactions'' old_tx,
        Delete ''transactions'' [(''id'', Some (JStr (utf16 ''a1'')))],
        Insert ''transactions'' old_tx,
        Delete ''transactions'' [(''id'', Some (JStr (utf16 ''a1'')))],
        Select ''transactions'' ''date'' False]
   \<and> st_queue retried = Some []
   \<and> map (omit ''id'') (or_empty (st_transactions retried)) = [old_tx, old_tx]
   \<and> map row_id (or_empty (st_transactions retried))
       = [Some (JStr (utf16 ''srv'')), Some (JStr (utf16 ''srv++''))]"
  by (simp add: retried_def cut_short_def queued_add_remove_def queued_add_def cached_app_def
      tx_a1_def old_tx_def tx_defs flaky_remote_def recording_remote_def accepting_remote_def
      server_id_def row_id_def string_of_nat_7)

text \<open>
  Claim C3 at these two inputs: after the drains have ended and cleared the queue, the
  entity added under \<^verbatim>\<open>offline-7\<close> is in the Local Store twice.
\<close>

theorem replayed_add_duplicates_entity:
  "map row_id (or_empty (st_transactions fresh_add)) = [Some (JStr (utf16 ''offline-7''))]
   \<and> st_queue both_ended = Some []
   \<and> map (omit ''id'') (or_empty (st_transactions both_ended)) = [old_tx, old_tx]
   \<and> map row_id (or_empty (st_transactions both_ended))
       = [Some (JStr (utf16 ''srv'')), Some (JStr (utf16 ''srv+''))]
   \<and> getQueue cut_short = getQueue queued_add_remove
   \<and> st_queue retried = Some []
   \<and> map (omit ''id'') (or_empty (st_transactions retried)) = [old_tx, old_tx]
   \<and> map row_id (or_empty (st_transactions retried))
       = [Some (JStr (utf16 ''srv'')), Some (JStr (utf16 ''srv++''))]"
  using overlapping_drains_facts retried_drain_facts by simp

subsection \<open>C4: a queued delete of a temporary identifier\<close>

text \<open>
  Claim C4 says that the drain issues no remote delete for a delete action whose
  identifier is temporary. Nothing in the program tests whether an identifier is
  temporary. Here a transaction is added offline (under \<^verbatim>\<open>offline-7\<close>) and then deleted
  offline; the drain sends the delete of \<^verbatim>\<open>offline-7\<close> to the remote store.
\<close>

theorem temporary_delete_reaches_remote:
  "map a_type (getQueue queued_add_delete) = [''add'', ''delete'']
   \<and> map a_id (getQueue queued_add_delete) = [None, Some (JStr (utf16 ''offline-7''))]
   \<and> is_temp_id (Some (JStr (utf16 ''offline-7'')))
   \<and> calls (syncQueue accepting_remote True queued_add_delete) =
       [Insert ''transactions'' old_tx,
        Delete ''transactions'' [(''id'', Some (JStr (utf16 ''offline-7'')))],
        Select ''transactions'' ''date'' False]"
  by (simp add: queued_add_delete_def queued_add_def cached_app_def tx_a1_def old_tx_def tx_defs
      accepting_remote_def string_of_nat_7 is_temp_id_def utf16_def)

text \<open>
  Claim C4 as amended: for every delete action, whatever its identifier, the turn of the
  drain issues the remote delete by that identifier on the transactions table, changes
  neither the loop variable nor anything else of the state (the local removal was done
  when the action was queued), and ends the loop only if the call throws.
\<close>

theorem drain_delete_is_always_remote:
  "a_type a = ''delete'' \<Longrightarrow>
   sync_step R a (l, s) =
     ((case void_reply R (calls s) (Delete ''transactions'' [(''id'', a_id a)]) of
         Threw e \<Rightarrow> Some e | _ \<Rightarrow> None),
      l, issue (Delete ''transactions'' [(''id'', a_id a)]) s)"
  by (simp add: sync_step_def Let_def split: reply.splits)

theorem drain_delete_is_always_remote_witness:
  "a_type ((mk_action ''delete'')\<lparr>a_id := Some (JStr (utf16 ''offline-7''))\<rparr>) = ''delete''
   \<and> sync_step accepting_remote ((mk_action ''delete'')\<lparr>a_id := Some (JStr (utf16 ''offline-7''))\<rparr>)
        ([tx_a1], cached_app)
     = (None, [tx_a1],
        issue (Delete ''transactions'' [(''id'', Some (JStr (utf16 ''offline-7'')))]) cached_app)"
proof -
  have t: "a_type ((mk_action ''delete'')\<lparr>a_id := Some (JStr (utf16 ''offline-7''))\<rparr>) = ''delete''"
    by (simp add: mk_action_def)
  show ?thesis
    using t drain_delete_is_always_remote [OF t, where R = accepting_remote
        and l = "[tx_a1]" and s = cached_app]
    by (simp add: accepting_remote_def)
qed

subsection \<open>C5: order of the queue and of the replay\<close>

text \<open>
  Claim C5 says that the queue holds the actions of the offline writes in the order of the
  writes and that the drain issues the corresponding remote operations in that order.
  The first half holds (\<open>offline_writes_append\<close>), and the calls that the drain issues
  follow the order of the queue (\<open>sync_loop_calls_in_order\<close>, \<open>sync_loop_calls_prefix\<close>).
  But a bulk rename has no call: this is the missing branch of C2. Here an update, a bulk
  rename and a delete are written offline in this order; the remote store receives the
  update and the delete, and nothing for the rename between them.
\<close>

theorem bulkRename_missing_from_replay:
  "map a_type (getQueue queued_three) = [''update'', ''bulkRename'', ''delete'']
   \<and> calls (syncQueue (listing_remote [tx_a1]) True queued_three) =
       [Update ''transactions'' (Some [(''amount'', JNum 50)]) [(''id'', Some (JStr (utf16 ''a1'')))],
        Delete ''transactions'' [(''id'', Some (JStr (utf16 ''a1'')))],
        Select ''transactions'' ''date'' False]"
  by (simp add: queued_three_def cached_app_def tx_a1_def tx_defs listing_remote_def
      accepting_remote_def)

subsection \<open>C6: a write refused while online\<close>

text \<open>
  Claim C6 says that every write issued online whose remote call is rejected fails, with
  the error surfaced to the caller, and leaves the Local Store untouched. The four writes
  of the transaction store do so. The adds and removes of the category and payment-method
  store catch the error and do not rethrow it: the call completes normally. The two
  order updates do not read the reply and end with a refresh, which rewrites the Local
  Store. Here the remote store refuses the insert of a category, and the add completes
  without failing; and it refuses the update of an order but answers listings, and the
  order update completes without failing and replaces the persisted categories.
\<close>

theorem refused_category_write_completes:
  "rejected (single_reply rejecting_remote (calls cached_data_app)
       (Insert ''categories''
          [(''name'', JStr (utf16 ''Rent'')), (''type'', JStr (utf16 ''expense''))]))
     (NonError (utf16 ''42501''))
   \<and> snd (addExpenseCategory rejecting_remote True 7 (expenseCategories cached_data_app)
        (utf16 ''Rent'') cached_data_app) = None
   \<and> rejected (void_reply (read_only_remote [cat_c2]) (calls cached_data_app)
       (Update ''categories'' (Some [(''order'', JNum 0)])
          [(''name'', Some (JStr (utf16 ''Food''))),
           (''type'', Some (JStr (utf16 ''expense'')))]))
     (NonError (utf16 ''42501''))
   \<and> snd (updateCategoryOrder (read_only_remote [cat_c2]) True (utf16 ''expense'')
        [utf16 ''Food''] cached_data_app) = None
   \<and> st_categories cached_data_app = Some [cat_c1]
   \<and> st_categories (fst (updateCategoryOrder (read_only_remote [cat_c2]) True
        (utf16 ''expense'') [utf16 ''Food''] cached_data_app)) = Some [cat_c2]
   \<and> \<not> local_store_untouched cached_data_app
        (fst (updateCategoryOrder (read_only_remote [cat_c2]) True (utf16 ''expense'')
           [utf16 ''Food''] cached_data_app))"
  by (simp add: rejected_def rejecting_remote_def read_only_remote_def cached_data_app_def
      cat_c1_def cat_c2_def data_defs tx_defs local_store_untouched_def js_trim_def
      is_space_def utf16_def)

text \<open>
  Claim C6 as amended. For every add, remove, update and bulk rename of the transaction
  store issued online whose remote call is rejected (it returns an error, or throws), the
  operation fails with that error, the message is recorded, and the Local Store is
  untouched: the in-memory collections and everything persisted are as before. For every
  add and remove of a category or payment method issued online whose remote call is
  rejected, the Local Store is untouched as well and the message is recorded in the error
  field of the store, but the operation does not fail: it completes normally. (An add
  whose guard holds makes no remote call.) The two order updates are not part of this
  statement.
\<close>

theorem online_rejection_leaves_local_store:
  "(rejected (single_reply R (calls s) (Insert ''transactions'' d)) e \<longrightarrow>
      snd (addTransaction R True now d s) = Some e
      \<and> local_store_untouched s (fst (addTransaction R True now d s))
      \<and> t_error (fst (addTransaction R True now d s))
          = Some (message_or e (utf16 ''Failed to add transaction'')))
   \<and> (rejected (void_reply R (calls s) (Delete ''transactions'' [(''id'', Some (JStr i))])) e \<longrightarrow>
      snd (removeTransaction R True i s) = Some e
      \<and> local_store_untouched s (fst (removeTransaction R True i s))
      \<and> t_error (fst (removeTransaction R True i s))
          = Some (message_or e (utf16 ''Failed to remove transaction'')))
   \<and> (rejected (single_reply R (calls s)
          (Update ''transactions'' (Some u) [(''id'', Some (JStr i))])) e \<longrightarrow>
      snd (updateTransaction R True i u s) = Inl e
      \<and> local_store_untouched s (fst (updateTransaction R True i u s))
      \<and> t_error (fst (updateTransaction R True i u s))
          = Some (message_or e (utf16 ''Failed to update transaction'')))
   \<and> (rejected (void_reply R (calls s)
          (Update ''transactions'' (Some [(f, JStr new)]) [(f, Some (JStr old))])) e \<longrightarrow>
      snd (bulkRenameInTransactions R True f old new s) = Some e
      \<and> local_store_untouched s (fst (bulkRenameInTransactions R True f old new s))
      \<and> t_error (fst (bulkRenameInTransactions R True f old new s))
          = Some (message_or e (utf16 ''Failed to bulk rename'')))
   \<and> (rejected (single_reply R (calls s) (Insert ''categories''
          [(''name'', JStr n), (''type'', JStr (utf16 ''expense''))])) e \<longrightarrow>
      snd (addExpenseCategory R True now ren n s) = None
      \<and> local_store_untouched s (fst (addExpenseCategory R True now ren n s))
      \<and> (js_trim n \<noteq> [] \<and> Some (JStr n) \<notin> set ren \<longrightarrow>
           d_error (fst (addExpenseCategory R True now ren n s))
             = Some (message_or e (utf16 ''Failed to add expense category''))))
   \<and> (rejected (single_reply R (calls s) (Insert ''categories''
          [(''name'', JStr n), (''type'', JStr (utf16 ''income''))])) e \<longrightarrow>
      snd (addIncomeCategory R True now ren n s) = None
      \<and> local_store_untouched s (fst (addIncomeCategory R True now ren n s))
      \<and> (js_trim n \<noteq> [] \<and> Some (JStr n) \<notin> set ren \<longrightarrow>
           d_error (fst (addIncomeCategory R True now ren n s))
             = Some (message_or e (utf16 ''Failed to add income category''))))
   \<and> (rejected (single_reply R (calls s) (Insert ''payment_methods'' [(''name'', JStr n)])) e \<longrightarrow>
      snd (addPaymentMethod R True now ren n s) = None
      \<and> local_store_untouched s (fst (addPaymentMethod R True now ren n s))
      \<and> (js_trim n \<noteq> [] \<and> Some (JStr n) \<notin> set ren \<longrightarrow>
           d_error (fst (addPaymentMethod R True now ren n s))
             = Some (message_or e (utf16 ''Failed to add payment method''))))
   \<and> (rejected (void_reply R (calls s) (Delete ''categories''
          [(''name'', Some (JStr n)), (''type'', Some (JStr (utf16 ''expense'')))])) e \<longrightarrow>
      snd (removeExpenseCategory R True n s) = None
      \<and> local_store_untouched s (fst (removeExpenseCategory R True n s))
      \<and> d_error (fst (removeExpenseCategory R True n s))
          = Some (message_or e (utf16 ''Failed to remove expense category'')))
   \<and> (rejected (void_reply R (calls s) (Delete ''categories''
          [(''name'', Some (JStr n)), (''type'', Some (JStr (utf16 ''income'')))])) e \<longrightarrow>
      snd (removeIncomeCategory R True n s) = None
      \<and> local_store_untouched s (fst (removeIncomeCategory R True n s))
      \<and> d_error (fst (removeIncomeCategory R True n s))
          = Some (message_or e (utf16 ''Failed to remove income category'')))
   \<and> (rejected (void_reply R (calls s)
          (Delete ''payment_methods'' [(''name'', Some (JStr n))])) e \<longrightarrow>
      snd (removePaymentMethod R True n s) = None
      \<and> local_store_untouched s (fst (removePaymentMethod R True n s))
      \<and> d_error (fst (removePaymentMethod R True n s))
          = Some (message_or e (utf16 ''Failed to remove payment method'')))"
  by (intro conjI impI;
      auto simp add: rejected_def local_store_untouched_def addTransaction_def
        removeTransaction_def updateTransaction_def bulkRenameInTransactions_def t_caught_def
        addExpenseCategory_def addIncomeCategory_def addPaymentMethod_def
        removeExpenseCategory_def removeIncomeCategory_def removePaymentMethod_def
        issue_def Let_def)

theorem online_rejection_leaves_local_store_witness:
  "rejected (single_reply rejecting_remote (calls cached_app) (Insert ''transactions'' old_tx))
     (NonError (utf16 ''42501''))
   \<and> snd (addTransaction rejecting_remote True 7 old_tx cached_app)
       = Some (NonError (utf16 ''42501''))
   \<and> local_store_untouched cached_app
       (fst (addTransaction rejecting_remote True 7 old_tx cached_app))
   \<and> snd (removeTransaction rejecting_remote True (utf16 ''a1'') cached_app)
       = Some (NonError (utf16 ''42501''))
   \<and> local_store_untouched cached_app
       (fst (removeTransaction rejecting_remote True (utf16 ''a1'') cached_app))
   \<and> snd (updateTransaction rejecting_remote True (utf16 ''a1'') old_tx cached_app)
       = Inl (NonError (utf16 ''42501''))
   \<and> local_store_untouched cached_app
       (fst (updateTransaction rejecting_remote True (utf16 ''a1'') old_tx cached_app))
   \<and> snd (bulkRenameInTransactions rejecting_remote True ''category'' (utf16 ''Food'')
        (utf16 ''Dining'') cached_app) = Some (NonError (utf16 ''42501''))
   \<and> local_store_untouched cached_app
       (fst (bulkRenameInTransactions rejecting_remote True ''category'' (utf16 ''Food'')
          (utf16 ''Dining'') cached_app))
   \<and> js_trim (utf16 ''Rent'') \<noteq> []
   \<and> Some (JStr (utf16 ''Rent'')) \<notin> set (expenseCategories cached_data_app)
   \<and> snd (addExpenseCategory rejecting_remote True 7 (expenseCategories cached_data_app)
        (utf16 ''Rent'') cached_data_app) = None
   \<and> local_store_untouched cached_data_app
       (fst (addExpenseCategory rejecting_remote True 7 (expenseCategories cached_data_app)
          (utf16 ''Rent'') cached_data_app))
   \<and> d_error (fst (addExpenseCategory rejecting_remote True 7
        (expenseCategories cached_data_app) (utf16 ''Rent'') cached_data_app))
       = Some (utf16 ''Failed to add expense category'')
   \<and> snd (removeExpenseCategory rejecting_remote True (utf16 ''Food'') cached_data_app) = None
   \<and> local_store_untouched cached_data_app
       (fst (removeExpenseCategory rejecting_remote True (utf16 ''Food'') cached_data_app))
   \<and> d_error (fst (removeExpenseCategory rejecting_remote True (utf16 ''Food'')
        cached_data_app)) = Some (utf16 ''Failed to remove expense category'')"
proof -
  have r1: "rejected (single_reply rejecting_remote h c) (NonError (utf16 ''42501''))" for h c
    by (simp add: rejected_def rejecting_remote_def)
  have r2: "rejected (void_reply rejecting_remote h c) (NonError (utf16 ''42501''))" for h c
    by (simp add: rejected_def rejecting_remote_def)
  have g: "js_trim (utf16 ''Rent'') \<noteq> []"
    "Some (JStr (utf16 ''Rent'')) \<notin> set (expenseCategories cached_data_app)"
    by (simp_all add: js_trim_def is_space_def utf16_def cached_data_app_def)
  have m: "message_or (NonError (utf16 ''42501'')) x = x" for x
    by (simp add: message_or_def)
  show ?thesis
    using g
      online_rejection_leaves_local_store [where R = rejecting_remote and s = cached_app
        and d = old_tx and e = "NonError (utf16 ''42501'')" and now = 7 and i = "utf16 ''a1''"
        and u = old_tx and f = "''category''" and old = "utf16 ''Food''"
        and new = "utf16 ''Dining''"]
      online_rejection_leaves_local_store [where R = rejecting_remote and s = cached_data_app
        and e = "NonError (utf16 ''42501'')" and now = 7 and n = "utf16 ''Rent''"
        and ren = "expenseCategories cached_data_app"]
      online_rejection_leaves_local_store [where R = rejecting_remote and s = cached_data_app
        and e = "NonError (utf16 ''42501'')" and n = "utf16 ''Food''"]
    by (simp add: r1 r2 m)
qed

subsection \<open>C7: a drain triggered while one is in flight\<close>

text \<open>
  Claim C7 says that a trigger of the drain is ignored while the flag \<^verbatim>\<open>isSyncing\<close> is
  set. \<^verbatim>\<open>syncQueue\<close> sets the flag and clears it at the end but never reads it. Here the
  flag is set and one add is queued; the triggered drain inserts it remotely.
\<close>

theorem drain_runs_while_flag_set:
  "t_isSyncing (queued_add\<lparr>t_isSyncing := True\<rparr>)
   \<and> calls (queued_add\<lparr>t_isSyncing := True\<rparr>) = []
   \<and> calls (syncQueue accepting_remote True (queued_add\<lparr>t_isSyncing := True\<rparr>)) =
       [Insert ''transactions'' old_tx, Select ''transactions'' ''date'' False]
   \<and> st_queue (syncQueue accepting_remote True (queued_add\<lparr>t_isSyncing := True\<rparr>)) = Some []"
  by (simp add: queued_add_def cached_app_def tx_a1_def old_tx_def tx_defs accepting_remote_def
      string_of_nat_7)

text \<open>
  Claim C7 as amended: the drain does not depend on the value the flag has when it is
  triggered: triggered while the flag is set, it processes the queue exactly as it does
  when the flag is clear. It leaves the flag clear when it ends.
\<close>

theorem syncQueue_never_reads_isSyncing:
  "syncQueue R online (s\<lparr>t_isSyncing := b\<rparr>) = syncQueue R online s
   \<and> t_isSyncing (syncQueue R online s) = False"
  by (simp add: syncQueue_def drainQueue_def Let_def
      split: prod.splits bool.splits option.splits)

theorem syncQueue_never_reads_isSyncing_witness:
  "syncQueue accepting_remote True (queued_add\<lparr>t_isSyncing := True\<rparr>)
     = syncQueue accepting_remote True queued_add
   \<and> t_isSyncing (syncQueue accepting_remote True queued_add) = False"
  using syncQueue_never_reads_isSyncing [where R = accepting_remote and online = True
      and s = queued_add and b = True]
  by simp

subsection \<open>C8: reading while offline\<close>

text \<open>
  Claim C8 says that a read made offline returns the transactions ordered by date
  descending, as the remote store orders them. The offline branch of
  \<^verbatim>\<open>refreshTransactions\<close> hands the persisted collection over as it is, and a write made
  offline puts the new row first whatever its date; no function of the program sorts.
  Here the Local Store is in descending order, a transaction dated earlier is added
  offline, and the offline read returns it before the later one.
\<close>

theorem offline_read_not_date_descending:
  "date_desc (or_empty (st_transactions cached_app))
   \<and> map date_of (transactions (refreshTransactions accepting_remote False queued_add))
       = [utf16 ''2024-01-01'', utf16 ''2024-01-05'']
   \<and> \<not> date_desc (transactions (refreshTransactions accepting_remote False queued_add))"
  by (simp add: queued_add_def tx_defs cached_app_def old_tx_def tx_a1_def date_desc_def
      date_of_def string_of_nat_7 utf16_def)

text \<open>
  Claim C8 as amended: a read made offline returns the persisted Local Store snapshot as
  it is stored, in its stored order and unfiltered (the empty collection when nothing is
  stored); it issues no remote call and does not change what is persisted under any key.
\<close>

theorem offline_read_is_snapshot:
  "transactions (refreshTransactions R False s) = or_empty (st_transactions s)
   \<and> st_transactions (refreshTransactions R False s) = st_transactions s
   \<and> st_categories (refreshTransactions R False s) = st_categories s
   \<and> st_payment_methods (refreshTransactions R False s) = st_payment_methods s
   \<and> st_queue (refreshTransactions R False s) = st_queue s
   \<and> calls (refreshTransactions R False s) = calls s"
  by (simp add: refreshTransactions_def Let_def)

theorem offline_read_is_snapshot_witness:
  "transactions (refreshTransactions rejecting_remote False cached_app) = [tx_a1]
   \<and> st_transactions (refreshTransactions rejecting_remote False cached_app) = Some [tx_a1]
   \<and> st_queue (refreshTransactions rejecting_remote False cached_app) = None
   \<and> calls (refreshTransactions rejecting_remote False cached_app) = []"
  using offline_read_is_snapshot [where R = rejecting_remote and s = cached_app]
  by (simp add: cached_app_def or_empty_def init_app_def)

subsection \<open>C9: the transaction drain dispatches on the type alone\<close>



subsection \<open>C10: adding a blank or known name\<close>

text \<open>
  Claim C10 says that an add of a category or payment method whose name is already in the
  current list changes nothing. The guard reads the list that the function saw at the
  render that created it, not the list of the state. Here the same function, created
  while the list was empty, is called twice offline with the same name: at the second
  call the name is in the current list, and the call queues a second add and puts the
  name into the list a second time.
\<close>

lemma repeated_add_facts:
  "expenseCategories added_once = [Some (JStr (utf16 ''Rent''))]
   \<and> map a_type (getQueue added_once) = [''add'']
   \<and> expenseCategories added_twice = [Some (JStr (utf16 ''Rent'')), Some (JStr (utf16 ''Rent''))]
   \<and> map a_type (getQueue added_twice) = [''add'', ''add'']
   \<and> map row_id (or_empty (st_categories added_twice))
       = [Some (JStr (utf16 ''offline-cat-7'')), Some (JStr (utf16 ''offline-cat-8''))]"
  by (simp add: added_twice_def added_once_def data_defs tx_defs js_trim_def is_space_def
      row_id_def string_of_nat_7 string_of_nat_8 utf16_def)

text \<open>
  Claim C10 at this input: the name is in the current list and the call is not a no-op.
\<close>

theorem repeated_add_through_same_function:
  "Some (JStr (utf16 ''Rent'')) \<in> set (expenseCategories added_once)
   \<and> added_twice = fst (addExpenseCategory accepting_remote False 8 [] (utf16 ''Rent'') added_once)
   \<and> added_twice \<noteq> added_once
   \<and> expenseCategories added_twice = [Some (JStr (utf16 ''Rent'')), Some (JStr (utf16 ''Rent''))]
   \<and> map a_type (getQueue added_once) = [''add'']
   \<and> map a_type (getQueue added_twice) = [''add'', ''add'']
   \<and> map row_id (or_empty (st_categories added_twice))
       = [Some (JStr (utf16 ''offline-cat-7'')), Some (JStr (utf16 ''offline-cat-8''))]"
proof -
  have "expenseCategories added_twice \<noteq> expenseCategories added_once"
    using repeated_add_facts by simp
  then have "added_twice \<noteq> added_once" by auto
  then show ?thesis using repeated_add_facts by (simp add: added_twice_def)
qed

text \<open>
  Claim C10 as amended: a call of \<^verbatim>\<open>addExpenseCategory\<close>, \<^verbatim>\<open>addIncomeCategory\<close> or
  \<^verbatim>\<open>addPaymentMethod\<close> whose name is empty after trimming, or is in the list of names
  that the function saw at the render that created it (the current list, when the
  function is the one of the latest render), changes nothing: it makes no remote call,
  writes nothing to the Local Store or the queue, leaves the lists, the error and the
  loading flag as they are, and completes normally. The state after it is the state
  before it.
\<close>

theorem guarded_add_is_noop:
  "(js_trim n = [] \<or> Some (JStr n) \<in> set ren \<longrightarrow>
      addExpenseCategory R online now ren n s = (s, None))
   \<and> (js_trim n = [] \<or> Some (JStr n) \<in> set ren \<longrightarrow>
      addIncomeCategory R online now ren n s = (s, None))
   \<and> (js_trim n = [] \<or> Some (JStr n) \<in> set ren \<longrightarrow>
      addPaymentMethod R online now ren n s = (s, None))"
  by (simp add: addExpenseCategory_def addIncomeCategory_def addPaymentMethod_def)

text \<open>
  Names made of spaces, of a no-break space and an ideographic space, and names of the
  current lists.
\<close>

theorem guarded_add_is_noop_witness:
  "js_trim (utf16 ''  '') = []
   \<and> addExpenseCategory accepting_remote True 7 [] (utf16 ''  '') cached_data_app
       = (cached_data_app, None)
   \<and> js_trim [0x00A0, 0x3000] = []
   \<and> addIncomeCategory accepting_remote True 7 [] [0x00A0, 0x3000] cached_data_app
       = (cached_data_app, None)
   \<and> addPaymentMethod accepting_remote True 7 [] [0x00A0, 0x3000] cached_data_app
       = (cached_data_app, None)
   \<and> Some (JStr (utf16 ''Food'')) \<in> set (expenseCategories cached_data_app)
   \<and> addExpenseCategory accepting_remote True 7 (expenseCategories cached_data_app)
        (utf16 ''Food'') cached_data_app = (cached_data_app, None)
   \<and> Some (JStr (utf16 ''Salary'')) \<in> set (incomeCategories cached_data_app)
   \<and> addIncomeCategory accepting_remote False 7 (incomeCategories cached_data_app)
        (utf16 ''Salary'') cached_data_app = (cached_data_app, None)
   \<and> Some (JStr (utf16 ''Cash'')) \<in> set (paymentMethods cached_data_app)
   \<and> addPaymentMethod accepting_remote False 7 (paymentMethods cached_data_app)
        (utf16 ''Cash'') cached_data_app = (cached_data_app, None)"
proof -
  have b: "js_trim (utf16 ''  '') = []" "js_trim [0x00A0, 0x3000] = []"
    by (simp_all add: js_trim_def is_space_def utf16_def)
  have m: "Some (JStr (utf16 ''Food'')) \<in> set (expenseCategories cached_data_app)"
    "Some (JStr (utf16 ''Salary'')) \<in> set (incomeCategories cached_data_app)"
    "Some (JStr (utf16 ''Cash'')) \<in> set (paymentMethods cached_data_app)"
    by (simp_all add: cached_data_app_def)
  show ?thesis
    using b m
      guarded_add_is_noop [where n = "utf16 ''  ''" and s = cached_data_app and ren = "[]"
        and R = accepting_remote and online = True and now = 7]
      guarded_add_is_noop [where n = "[0x00A0, 0x3000]" and s = cached_data_app and ren = "[]"
        and R = accepting_remote and online = True and now = 7]
      guarded_add_is_noop [where n = "utf16 ''Food''" and s = cached_data_app
        and ren = "expenseCategories cached_data_app"
        and R = accepting_remote and online = True and now = 7]
      guarded_add_is_noop [where n = "utf16 ''Salary''" and s = cached_data_app
        and ren = "incomeCategories cached_data_app"
        and R = accepting_remote and online = False and now = 7]
      guarded_add_is_noop [where n = "utf16 ''Cash''" and s = cached_data_app
        and ren = "paymentMethods cached_data_app"
        and R = accepting_remote and online = False and now = 7]
    by simp
qed

end
